theory Spec2Isabelle
  imports Complex_Main "HOL-Library.Multiset"
begin

section \<open>Tensors over the reals\<close>

text \<open>
  The script computes with 32-bit floating-point tensors. The development reads every
  tensor entry as a real number: a one-dimensional tensor is a list of reals, a
  two-dimensional tensor a list of rows. Rounding is not part of the embedding.
\<close>

type_synonym vec = "real list"
type_synonym mat = "real list list"
type_synonym point = "real \<times> real"

text \<open>Elementwise arithmetic of one-dimensional tensors of equal shape, and a scalar
  on the left of a tensor (\<^verbatim>\<open>1 - t\<close>).\<close>

definition tensor_mul :: "vec \<Rightarrow> vec \<Rightarrow> vec" where
  "tensor_mul xs ys = map2 (\<lambda>x y. x * y) xs ys"

definition scalar_rsub :: "real \<Rightarrow> vec \<Rightarrow> vec" where
  "scalar_rsub c xs = map (\<lambda>x. c - x) xs"

section \<open>The uncertainty heuristic\<close>

text \<open>\<^verbatim>\<open>resnet_uncertainty = resnet_probs * (1 - resnet_probs)\<close>\<close>

definition resnet_uncertainty :: "vec \<Rightarrow> vec" where
  "resnet_uncertainty resnet_probs = tensor_mul resnet_probs (scalar_rsub 1 resnet_probs)"

section \<open>The evaluation grid\<close>

definition DEFAULT_X_RANGE :: "real \<times> real" where
  "DEFAULT_X_RANGE = (-3.5, 3.5)"

definition DEFAULT_Y_RANGE :: "real \<times> real" where
  "DEFAULT_Y_RANGE = (-2.5, 2.5)"

definition DEFAULT_N_GRID :: nat where
  "DEFAULT_N_GRID = 100"

text \<open>
  \<^verbatim>\<open>np.linspace(start, stop, num)\<close> with the endpoint included: the indices
  \<open>0..<num\<close> are scaled by the step \<open>(stop - start) / (num - 1)\<close> (by
  \<open>stop - start\<close> itself when \<open>num = 1\<close>, where there is no step), shifted by
  \<open>start\<close>, and the last entry is then overwritten with \<open>stop\<close>.
\<close>

definition linspace :: "real \<Rightarrow> real \<Rightarrow> nat \<Rightarrow> real list" where
  "linspace start stop num =
     (let divisor = num - 1;
          delta = stop - start;
          factor = (if 0 < divisor then delta / real divisor else delta);
          y = map (\<lambda>i. real i * factor + start) [0..<num]
      in if 1 < num then y[num - 1 := stop] else y)"

text \<open>
  \<^verbatim>\<open>np.meshgrid(x, y)\<close> with its default Cartesian indexing: both results have one
  row per entry of \<open>y\<close> and one column per entry of \<open>x\<close>; \<open>xv\<close> repeats \<open>x\<close> in
  every row, \<open>yv\<close> holds \<open>y ! j\<close> all along row \<open>j\<close>.
\<close>

definition meshgrid :: "real list \<Rightarrow> real list \<Rightarrow> mat \<times> mat" where
  "meshgrid x y = (replicate (length y) x, map (\<lambda>v. replicate (length x) v) y)"

text \<open>\<^verbatim>\<open>a.flatten()\<close>: the rows one after the other.\<close>

definition flatten :: "mat \<Rightarrow> vec" where
  "flatten a = concat a"

text \<open>\<^verbatim>\<open>torch.stack([a, b], axis=-1)\<close> of two one-dimensional tensors of equal
  length: row \<open>k\<close> is the pair of their \<open>k\<close>-th entries.\<close>

definition stack_last :: "vec \<Rightarrow> vec \<Rightarrow> point list" where
  "stack_last a b = zip a b"

definition make_testing_data :: "real \<times> real \<Rightarrow> real \<times> real \<Rightarrow> nat \<Rightarrow> point list" where
  "make_testing_data x_range y_range n_grid =
     (let x = linspace (fst x_range) (snd x_range) n_grid;
          y = linspace (fst y_range) (snd y_range) n_grid;
          (xv, yv) = meshgrid x y
      in stack_last (flatten xv) (flatten yv))"

section \<open>Failures\<close>

text \<open>
  What the script can run into instead of a value. \<open>MaxOfEmptyTensor\<close>,
  \<open>ReshapeMismatch\<close> and \<open>ZeroDivisionError\<close> are exceptions (\<^verbatim>\<open>torch.max\<close> of a
  tensor without entries, \<^verbatim>\<open>np.reshape\<close> to a shape of another size, Python's float
  division by zero). A tensor division by zero raises nothing: its entries become
  infinities or NaN, which no real number stands for, so the embedding reports it as the
  outcome \<open>DivisionByZero\<close>.
\<close>

datatype failure = MaxOfEmptyTensor | DivisionByZero | ReshapeMismatch | ZeroDivisionError

section \<open>The plotted surface\<close>

text \<open>\<^verbatim>\<open>torch.max(t)\<close>: the greatest entry of a tensor.\<close>

definition torch_max :: "vec \<Rightarrow> failure + real" where
  "torch_max t = (if t = [] then Inl MaxOfEmptyTensor else Inr (Max (set t)))"

text \<open>\<^verbatim>\<open>t / m\<close>: every entry divided by the scalar \<open>m\<close>.\<close>

definition tensor_div :: "vec \<Rightarrow> real \<Rightarrow> failure + vec" where
  "tensor_div t m = (if m = 0 then Inl DivisionByZero else Inr (map (\<lambda>x. x / m) t))"

text \<open>\<^verbatim>\<open>np.reshape(a, [rows, cols])\<close> of a one-dimensional array, in row-major order.\<close>

definition np_reshape :: "vec \<Rightarrow> nat \<Rightarrow> nat \<Rightarrow> failure + mat" where
  "np_reshape a rows cols =
     (if length a = rows * cols
      then Inr (map (\<lambda>r. take cols (drop (r * cols) a)) [0..<rows])
      else Inl ReshapeMismatch)"

text \<open>
  Line 185 of the script, the first statement of \<^verbatim>\<open>plot_uncertainty_surface\<close>:
  \<^verbatim>\<open>test_uncertainty = test_uncertainty / torch.max(test_uncertainty)\<close>.
\<close>

definition normalize_uncertainty :: "vec \<Rightarrow> failure + vec" where
  "normalize_uncertainty test_uncertainty =
     (case torch_max test_uncertainty of
        Inl e \<Rightarrow> Inl e
      | Inr m \<Rightarrow> tensor_div test_uncertainty m)"

text \<open>
  \<^verbatim>\<open>plot_uncertainty_surface\<close> returns the image it draws. Its data is the normalized
  array reshaped to the grid; the view limits, the colour map and the scattered training
  and out-of-domain points are drawing state and are not modelled.

  A division by the maximum \<open>0\<close> raises nothing: the array of infinities and NaN it
  leaves has the length of the scores and goes on to \<^verbatim>\<open>np.reshape\<close>, which rejects it
  exactly when it would reject the scores. When the size fits, the image is drawn from
  entries that are not real numbers, and the outcome is \<open>DivisionByZero\<close>.
\<close>

definition plot_uncertainty_surface :: "vec \<Rightarrow> failure + mat" where
  "plot_uncertainty_surface test_uncertainty =
     (case normalize_uncertainty test_uncertainty of
        Inl e \<Rightarrow>
          (if e = DivisionByZero
           then (case np_reshape test_uncertainty DEFAULT_N_GRID DEFAULT_N_GRID of
                   Inl e1 \<Rightarrow> Inl e1
                 | Inr img \<Rightarrow> Inl DivisionByZero)
           else Inl e)
      | Inr normalized \<Rightarrow> np_reshape normalized DEFAULT_N_GRID DEFAULT_N_GRID)"

section \<open>The residual classifier\<close>

text \<open>
  A parameter is a tensor with the bookkeeping torch keeps for it: whether gradients
  are wanted (\<^verbatim>\<open>requires_grad\<close>), the gradient once one has been computed (\<^verbatim>\<open>grad\<close>,
  \<^verbatim>\<open>None\<close> before), and the optimizer's state for this parameter (torch keeps it in
  \<^verbatim>\<open>optimizer.state[p]\<close>, absent until the first update of \<open>p\<close>).
\<close>

record ('a, 'o) param =
  pdata :: 'a
  requires_grad :: bool
  grad :: "'a option"
  opt_state :: "'o option"

definition new_param :: "'a \<Rightarrow> ('a, 'o) param" where
  "new_param d = \<lparr>pdata = d, requires_grad = True, grad = None, opt_state = None\<rparr>"

text \<open>\<^verbatim>\<open>nn.Linear\<close>: a weight with one row per output feature, and a bias.\<close>

record 'o linear =
  weight :: "(mat, 'o) param"
  bias :: "(vec, 'o) param"

record 'o DeepResnet =
  num_inputs_features :: nat
  num_layers :: nat
  num_hidden :: nat
  dropout_rate :: real
  num_outputs :: nat
  input_layer :: "'o linear"
  linears :: "'o linear list"
  dropout :: real
  classifier :: "'o linear"
  training :: bool

text \<open>The layers of the model, and its parameters as the optimizer refers to them.\<close>

datatype layer_ref = InputLayer | Linears nat | Classifier

datatype param_ref = Weight layer_ref | Bias layer_ref

section \<open>The libraries\<close>

text \<open>
  Pseudo-random generators, automatic differentiation and the update rule of Adam
  belong to NumPy and torch, not to the script. They are parameters of the
  development: \<open>'n\<close> and \<open>'t\<close> are the states of NumPy's and torch's global generators,
  \<open>'o\<close> is Adam's state for one parameter. A sampler takes the generator state and
  returns what it draws together with the advanced state; an array of draws is given by
  its entries, indexed by position.

  \<^item> \<open>np_seed\<close>, \<open>torch_seed\<close>: the generator state \<^verbatim>\<open>np.random.seed(s)\<close> and
    \<^verbatim>\<open>torch.manual_seed(s)\<close> install.
  \<^item> \<open>np_shuffle g n\<close>: the order in which \<^verbatim>\<open>sklearn.utils.shuffle\<close> arranges \<open>n\<close> rows.
  \<^item> \<open>np_normal g scale\<close>: centred normal draws in the plane, \<^verbatim>\<open>generator.normal\<close>.
  \<^item> \<open>np_multivariate_normal g means vars\<close>: \<^verbatim>\<open>np.random.multivariate_normal\<close> with a
    diagonal covariance.
  \<^item> \<open>torch_linear_init g fan_in\<close>: the initial weight and bias entries of
    \<^verbatim>\<open>nn.Linear\<close>.
  \<^item> \<open>torch_randperm g n\<close>: the order in which a shuffling \<^verbatim>\<open>DataLoader\<close> visits its
    \<open>n\<close> examples in one pass.
  \<^item> \<open>torch_bernoulli g q\<close>: which entries a dropout layer keeps, each with probability
    \<open>q\<close>.
  \<^item> \<open>autograd_weight\<close>, \<open>autograd_bias\<close>: the gradient of the minibatch loss with respect
    to a layer's weight and bias, for the model, the generator state the forward pass
    started from, the inputs and the targets.
  \<^item> \<open>adam_weight\<close>, \<open>adam_bias\<close>: Adam's update of one parameter, from the learning
    rate, the parameter's optimizer state, its value and its gradient.
\<close>

record ('n, 't, 'o) library =
  np_seed :: "nat \<Rightarrow> 'n"
  torch_seed :: "nat \<Rightarrow> 't"
  np_shuffle :: "'n \<Rightarrow> nat \<Rightarrow> nat list \<times> 'n"
  np_normal :: "'n \<Rightarrow> real \<Rightarrow> (nat \<Rightarrow> point) \<times> 'n"
  np_multivariate_normal :: "'n \<Rightarrow> point \<Rightarrow> point \<Rightarrow> (nat \<Rightarrow> point) \<times> 'n"
  torch_linear_init :: "'t \<Rightarrow> nat \<Rightarrow> ((nat \<Rightarrow> nat \<Rightarrow> real) \<times> (nat \<Rightarrow> real)) \<times> 't"
  torch_randperm :: "'t \<Rightarrow> nat \<Rightarrow> nat list \<times> 't"
  torch_bernoulli :: "'t \<Rightarrow> real \<Rightarrow> (nat \<Rightarrow> nat \<Rightarrow> bool) \<times> 't"
  autograd_weight :: "'o DeepResnet \<Rightarrow> 't \<Rightarrow> mat \<Rightarrow> vec \<Rightarrow> layer_ref \<Rightarrow> mat"
  autograd_bias :: "'o DeepResnet \<Rightarrow> 't \<Rightarrow> mat \<Rightarrow> vec \<Rightarrow> layer_ref \<Rightarrow> vec"
  adam_weight :: "real \<Rightarrow> 'o option \<Rightarrow> mat \<Rightarrow> mat \<Rightarrow> mat \<times> 'o"
  adam_bias :: "real \<Rightarrow> 'o option \<Rightarrow> vec \<Rightarrow> vec \<Rightarrow> vec \<times> 'o"

text \<open>What the theorems need of the libraries: a shuffle is a permutation of the indices.\<close>

definition shuffles_permute :: "('n, 't, 'o) library \<Rightarrow> bool" where
  "shuffles_permute lib \<longleftrightarrow>
     (\<forall>g n. mset (fst (np_shuffle lib g n)) = mset [0..<n]) \<and>
     (\<forall>g n. mset (fst (torch_randperm lib g n)) = mset [0..<n])"

text \<open>
  A library that draws nothing: generators without state, the identity for every
  shuffle, zero for every draw and every gradient, every dropout entry kept, and an
  update rule that leaves the parameter alone. It serves as the concrete instance at
  which the theorems are exercised.
\<close>

definition still_library :: "(unit, unit, unit) library" where
  "still_library =
     \<lparr>np_seed = (\<lambda>s. ()),
      torch_seed = (\<lambda>s. ()),
      np_shuffle = (\<lambda>g n. ([0..<n], g)),
      np_normal = (\<lambda>g scale. (\<lambda>i. (0, 0), g)),
      np_multivariate_normal = (\<lambda>g means vars. (\<lambda>i. means, g)),
      torch_linear_init = (\<lambda>g fan_in. ((\<lambda>i j. 0, \<lambda>i. 0), g)),
      torch_randperm = (\<lambda>g n. ([0..<n], g)),
      torch_bernoulli = (\<lambda>g q. (\<lambda>i j. True, g)),
      autograd_weight = (\<lambda>m g x y l. []),
      autograd_bias = (\<lambda>m g x y l. []),
      adam_weight = (\<lambda>lr s p g. (p, ())),
      adam_bias = (\<lambda>lr s p g. (p, ()))\<rparr>"


section \<open>Data synthesis\<close>

definition point_add :: "point \<Rightarrow> point \<Rightarrow> point" where
  "point_add p q = (fst p + fst q, snd p + snd q)"

text \<open>
  \<^verbatim>\<open>sklearn.datasets.make_moons(n_samples, noise)\<close>, with its default shuffling: half
  of the points (rounded down) on the outer half circle with label \<open>0\<close>, the others on
  the inner one with label \<open>1\<close>; points and labels are shuffled together, and normal
  noise is added to the points.
\<close>

definition make_moons ::
  "('n, 't, 'o) library \<Rightarrow> nat \<Rightarrow> real \<Rightarrow> 'n \<Rightarrow> (point list \<times> nat list) \<times> 'n" where
  "make_moons lib n_samples noise generator =
     (let n_samples_out = n_samples div 2;
          n_samples_in = n_samples - n_samples_out;
          outer_circ = map (\<lambda>t. (cos t, sin t)) (linspace 0 pi n_samples_out);
          inner_circ = map (\<lambda>t. (1 - cos t, 1 - sin t - 0.5)) (linspace 0 pi n_samples_in);
          X = outer_circ @ inner_circ;
          y = replicate n_samples_out 0 @ replicate n_samples_in 1;
          (indices, generator1) = np_shuffle lib generator n_samples;
          X1 = map (\<lambda>i. X ! i) indices;
          y1 = map (\<lambda>i. y ! i) indices;
          (draws, generator2) = np_normal lib generator1 noise;
          X2 = map (\<lambda>(k, p). point_add p (draws k)) (enumerate 0 X1)
      in ((X2, y1), generator2))"

text \<open>\<^verbatim>\<open>examples[labels == c] += offset\<close>: the offset is added to the rows whose label
  is \<open>c\<close>, the other rows stay.\<close>

definition add_where_label :: "nat \<Rightarrow> point \<Rightarrow> point list \<Rightarrow> nat list \<Rightarrow> point list" where
  "add_where_label c offset examples labels =
     map (\<lambda>(p, l). if l = c then point_add p offset else p) (zip examples labels)"

definition make_training_data ::
  "('n, 't, 'o) library \<Rightarrow> nat \<Rightarrow> 'n \<Rightarrow> (point list \<times> real list) \<times> 'n" where
  "make_training_data lib sample_size generator =
     (let ((train_examples, train_labels), generator1) =
            make_moons lib (2 * sample_size) 0.1 generator;
          train_examples1 = add_where_label 0 (- 0.1, 0.2) train_examples train_labels;
          train_examples2 = add_where_label 1 (0.1, - 0.2) train_examples1 train_labels
      in ((train_examples2, map real train_labels), generator1))"

definition make_ood_data ::
  "('n, 't, 'o) library \<Rightarrow> nat \<Rightarrow> point \<Rightarrow> point \<Rightarrow> 'n \<Rightarrow> point list \<times> 'n" where
  "make_ood_data lib sample_size means vars generator =
     (let (draws, generator1) = np_multivariate_normal lib generator means vars
      in (map draws [0..<sample_size], generator1))"

section \<open>The forward pass\<close>

text \<open>
  Tensor operations are total here: a shape that torch would reject is not reported,
  the shorter of two operands decides. In the script every shape fits.
\<close>

definition dot :: "vec \<Rightarrow> vec \<Rightarrow> real" where
  "dot u v = sum_list (map2 (\<lambda>a b. a * b) u v)"

text \<open>\<^verbatim>\<open>F.linear(input, W, b)\<close>: every row \<open>x\<close> of the input becomes \<open>W x + b\<close>.\<close>

definition F_linear :: "mat \<Rightarrow> mat \<Rightarrow> vec \<Rightarrow> mat" where
  "F_linear input W b = map (\<lambda>x. map2 (\<lambda>w c. dot x w + c) W b) input"

definition linear_forward :: "'o linear \<Rightarrow> mat \<Rightarrow> mat" where
  "linear_forward l input = F_linear input (pdata (weight l)) (pdata (bias l))"

definition F_relu :: "mat \<Rightarrow> mat" where
  "F_relu input = map (map (\<lambda>v. max 0 v)) input"

definition tensor_add :: "mat \<Rightarrow> mat \<Rightarrow> mat" where
  "tensor_add a b = map2 (map2 (\<lambda>u v. u + v)) a b"

text \<open>
  \<^verbatim>\<open>nn.Dropout(p)\<close> applied to a tensor. In training mode it draws which entries to
  keep, zeroes the others and scales the kept ones by \<open>1 / (1 - p)\<close> (with \<open>p = 1\<close>
  everything is zeroed); in evaluation mode it returns its input and draws nothing.
\<close>

definition drop_entries :: "real \<Rightarrow> (nat \<Rightarrow> nat \<Rightarrow> bool) \<Rightarrow> mat \<Rightarrow> mat" where
  "drop_entries p keep input =
     map (\<lambda>(i, row). map (\<lambda>(j, v). if keep i j \<and> p \<noteq> 1 then v / (1 - p) else 0)
                        (enumerate 0 row))
         (enumerate 0 input)"

definition nn_dropout ::
  "('n, 't, 'o) library \<Rightarrow> real \<Rightarrow> bool \<Rightarrow> mat \<Rightarrow> 't \<Rightarrow> mat \<times> 't" where
  "nn_dropout lib p train input g =
     (if train
      then (let (keep, g1) = torch_bernoulli lib g (1 - p) in (drop_entries p keep input, g1))
      else (input, g))"

text \<open>The loop of \<^verbatim>\<open>DeepResnet.forward\<close> over \<^verbatim>\<open>self.linears\<close>.\<close>

fun residual_blocks ::
  "('n, 't, 'o) library \<Rightarrow> real \<Rightarrow> bool \<Rightarrow> 'o linear list \<Rightarrow> mat \<Rightarrow> 't \<Rightarrow> mat \<times> 't" where
  "residual_blocks lib p train [] hidden g = (hidden, g)"
| "residual_blocks lib p train (resid # rest) hidden g =
     (let (dropped, g1) = nn_dropout lib p train (F_relu (linear_forward resid hidden)) g
      in residual_blocks lib p train rest (tensor_add hidden dropped) g1)"

definition forward ::
  "('n, 't, 'o) library \<Rightarrow> 'o DeepResnet \<Rightarrow> mat \<Rightarrow> 't \<Rightarrow> mat \<times> 't" where
  "forward lib m inputs g =
     (let hidden = linear_forward (input_layer m) inputs;
          (hidden1, g1) = residual_blocks lib (dropout m) (training m) (linears m) hidden g;
          out = linear_forward (classifier m) hidden1
      in (out, g1))"

text \<open>
  The description of the forward pass in the specification, kept apart from the code
  above: the hidden state after \<open>k\<close> residual blocks, the \<open>k\<close>-th block being
  \<open>linears m ! k\<close>.
\<close>

primrec spec_hidden ::
  "('n, 't, 'o) library \<Rightarrow> 'o DeepResnet \<Rightarrow> mat \<Rightarrow> 't \<Rightarrow> nat \<Rightarrow> mat \<times> 't" where
  "spec_hidden lib m inputs g 0 = (linear_forward (input_layer m) inputs, g)"
| "spec_hidden lib m inputs g (Suc k) =
     (let (hidden, g1) = spec_hidden lib m inputs g k;
          (dropped, g2) = nn_dropout lib (dropout m) (training m)
                            (F_relu (linear_forward (linears m ! k) hidden)) g1
      in (tensor_add hidden dropped, g2))"

section \<open>Construction of the model\<close>

text \<open>\<^verbatim>\<open>nn.Linear(in_features, out_features)\<close>: fresh trainable parameters with the
  entries the initializer draws.\<close>

definition nn_Linear ::
  "('n, 't, 'o) library \<Rightarrow> nat \<Rightarrow> nat \<Rightarrow> 't \<Rightarrow> 'o linear \<times> 't" where
  "nn_Linear lib in_features out_features g =
     (let ((w, b), g1) = torch_linear_init lib g in_features
      in (\<lparr>weight = new_param (map (\<lambda>i. map (\<lambda>j. w i j) [0..<in_features]) [0..<out_features]),
           bias = new_param (map b [0..<out_features])\<rparr>, g1))"

text \<open>\<^verbatim>\<open>[nn.Linear(num_hidden, num_hidden) for i in range(num_layers)]\<close>\<close>

fun hidden_layers ::
  "('n, 't, 'o) library \<Rightarrow> nat \<Rightarrow> nat \<Rightarrow> 't \<Rightarrow> 'o linear list \<times> 't" where
  "hidden_layers lib n_hidden 0 g = ([], g)"
| "hidden_layers lib n_hidden (Suc k) g =
     (let (l, g1) = nn_Linear lib n_hidden n_hidden g;
          (ls, g2) = hidden_layers lib n_hidden k g1
      in (l # ls, g2))"

text \<open>\<^verbatim>\<open>DeepResnet.__init__\<close>. A new module is in training mode
  (\<^verbatim>\<open>nn.Module.__init__\<close> sets \<^verbatim>\<open>self.training = True\<close>). A dropout rate
  outside \<open>[0, 1]\<close>, which \<^verbatim>\<open>nn.Dropout\<close> rejects, is not reported; the script
  constructs its model with the rate \<open>0.01\<close>.\<close>

definition DeepResnet_init ::
  "('n, 't, 'o) library \<Rightarrow> nat \<Rightarrow> nat \<Rightarrow> nat \<Rightarrow> real \<Rightarrow> nat \<Rightarrow> 't \<Rightarrow> 'o DeepResnet \<times> 't" where
  "DeepResnet_init lib n_inputs_features n_layers n_hidden rate n_outputs g =
     (let (inp, g1) = nn_Linear lib n_inputs_features n_hidden g;
          (hid, g2) = hidden_layers lib n_hidden n_layers g1;
          (cls, g3) = nn_Linear lib n_hidden n_outputs g2
      in (\<lparr>num_inputs_features = n_inputs_features,
           num_layers = n_layers,
           num_hidden = n_hidden,
           dropout_rate = rate,
           num_outputs = n_outputs,
           input_layer = inp,
           linears = hid,
           dropout = rate,
           classifier = cls,
           training = True\<rparr>, g3))"

section \<open>Training\<close>

text \<open>Lines 136 and 137: \<^verbatim>\<open>requires_grad = False\<close> for the parameters of the input layer.\<close>

definition freeze_input_layer :: "'o DeepResnet \<Rightarrow> 'o DeepResnet" where
  "freeze_input_layer m =
     m\<lparr>input_layer :=
         (input_layer m)\<lparr>weight := (weight (input_layer m))\<lparr>requires_grad := False\<rparr>,
                          bias := (bias (input_layer m))\<lparr>requires_grad := False\<rparr>\<rparr>\<rparr>"

text \<open>\<^verbatim>\<open>model.parameters()\<close>, in registration order.\<close>

definition parameters :: "'o DeepResnet \<Rightarrow> param_ref list" where
  "parameters m =
     [Weight InputLayer, Bias InputLayer]
     @ concat (map (\<lambda>i. [Weight (Linears i), Bias (Linears i)]) [0..<length (linears m)])
     @ [Weight Classifier, Bias Classifier]"

text \<open>
  The optimizer holds references to the parameters it was given and the learning rate.
  The tensors stay in the model: an update through a reference is an update of the
  model.
\<close>

record optimizer =
  params :: "param_ref list"
  lr :: real

definition optim_Adam :: "param_ref list \<Rightarrow> real \<Rightarrow> optimizer" where
  "optim_Adam ps rate = \<lparr>params = ps, lr = rate\<rparr>"

fun update_layer :: "layer_ref \<Rightarrow> ('o linear \<Rightarrow> 'o linear) \<Rightarrow> 'o DeepResnet \<Rightarrow> 'o DeepResnet" where
  "update_layer InputLayer f m = m\<lparr>input_layer := f (input_layer m)\<rparr>"
| "update_layer (Linears i) f m =
     (if i < length (linears m) then m\<lparr>linears := (linears m)[i := f (linears m ! i)]\<rparr> else m)"
| "update_layer Classifier f m = m\<lparr>classifier := f (classifier m)\<rparr>"

text \<open>\<^verbatim>\<open>optimizer.zero_grad()\<close>: the gradient of every parameter of the optimizer is
  reset to \<^verbatim>\<open>None\<close>.\<close>

fun zero_grad_param :: "param_ref \<Rightarrow> 'o DeepResnet \<Rightarrow> 'o DeepResnet" where
  "zero_grad_param (Weight l) m =
     update_layer l (\<lambda>lin. lin\<lparr>weight := (weight lin)\<lparr>grad := None\<rparr>\<rparr>) m"
| "zero_grad_param (Bias l) m =
     update_layer l (\<lambda>lin. lin\<lparr>bias := (bias lin)\<lparr>grad := None\<rparr>\<rparr>) m"

definition zero_grad :: "optimizer \<Rightarrow> 'o DeepResnet \<Rightarrow> 'o DeepResnet" where
  "zero_grad opt m = fold zero_grad_param (params opt) m"

text \<open>
  \<^verbatim>\<open>loss.backward()\<close>: a parameter that requires a gradient receives the gradient of
  the loss, added to the one it holds if it holds one; a parameter that does not require
  one is not touched. The gradients are those of the forward pass that produced the
  loss, on the model \<open>fm\<close> from the generator state \<open>fg\<close>.
\<close>

definition accumulate :: "('a \<Rightarrow> 'a \<Rightarrow> 'a) \<Rightarrow> 'a \<Rightarrow> ('a, 'o) param \<Rightarrow> ('a, 'o) param" where
  "accumulate add g p =
     (if requires_grad p
      then p\<lparr>grad := Some (case grad p of None \<Rightarrow> g | Some old \<Rightarrow> add old g)\<rparr>
      else p)"

definition backward_layer ::
  "('n, 't, 'o) library \<Rightarrow> 'o DeepResnet \<Rightarrow> 't \<Rightarrow> mat \<Rightarrow> vec \<Rightarrow> layer_ref \<Rightarrow> 'o linear \<Rightarrow> 'o linear" where
  "backward_layer lib fm fg x y l lin =
     lin\<lparr>weight := accumulate tensor_add (autograd_weight lib fm fg x y l) (weight lin),
         bias := accumulate (map2 (\<lambda>u v. u + v)) (autograd_bias lib fm fg x y l) (bias lin)\<rparr>"

definition loss_backward ::
  "('n, 't, 'o) library \<Rightarrow> 'o DeepResnet \<Rightarrow> 't \<Rightarrow> mat \<Rightarrow> vec \<Rightarrow> 'o DeepResnet \<Rightarrow> 'o DeepResnet" where
  "loss_backward lib fm fg x y m =
     m\<lparr>input_layer := backward_layer lib fm fg x y InputLayer (input_layer m),
       linears := map (\<lambda>(i, lin). backward_layer lib fm fg x y (Linears i) lin)
                      (enumerate 0 (linears m)),
       classifier := backward_layer lib fm fg x y Classifier (classifier m)\<rparr>"

text \<open>
  \<^verbatim>\<open>optimizer.step()\<close>: Adam goes through its parameters and updates those that hold a
  gradient; a parameter whose gradient is \<^verbatim>\<open>None\<close> is skipped.
\<close>

definition adam_update ::
  "(real \<Rightarrow> 'o option \<Rightarrow> 'a \<Rightarrow> 'a \<Rightarrow> 'a \<times> 'o) \<Rightarrow> real \<Rightarrow> ('a, 'o) param \<Rightarrow> ('a, 'o) param" where
  "adam_update rule rate p =
     (case grad p of
        None \<Rightarrow> p
      | Some g \<Rightarrow> (let (d, s) = rule rate (opt_state p) (pdata p) g
                  in p\<lparr>pdata := d, opt_state := Some s\<rparr>))"

fun step_param :: "('n, 't, 'o) library \<Rightarrow> real \<Rightarrow> param_ref \<Rightarrow> 'o DeepResnet \<Rightarrow> 'o DeepResnet" where
  "step_param lib rate (Weight l) m =
     update_layer l (\<lambda>lin. lin\<lparr>weight := adam_update (adam_weight lib) rate (weight lin)\<rparr>) m"
| "step_param lib rate (Bias l) m =
     update_layer l (\<lambda>lin. lin\<lparr>bias := adam_update (adam_bias lib) rate (bias lin)\<rparr>) m"

definition optimizer_step :: "('n, 't, 'o) library \<Rightarrow> optimizer \<Rightarrow> 'o DeepResnet \<Rightarrow> 'o DeepResnet" where
  "optimizer_step lib opt m = fold (step_param lib (lr opt)) (params opt) m"

text \<open>The loss and the accuracy of a minibatch.\<close>

definition torch_sigmoid :: "mat \<Rightarrow> mat" where
  "torch_sigmoid t = map (map (\<lambda>z. 1 / (1 + exp (- z)))) t"

text \<open>
  \<^verbatim>\<open>squeeze\<close> of a tensor with one column and at least two rows: its entries as a
  vector. (Of a single row torch makes a tensor without dimensions, which the loss
  function rejects; the minibatches of the script have 128 and 104 rows.)
\<close>

definition squeeze :: "mat \<Rightarrow> vec" where
  "squeeze t = concat t"

definition tensor_mean :: "vec \<Rightarrow> real" where
  "tensor_mean t = sum_list t / real (length t)"

text \<open>\<^verbatim>\<open>nn.BCELoss\<close>: the mean binary cross entropy; torch bounds the logarithms
  below by \<open>-100\<close>.\<close>

definition clamped_log :: "real \<Rightarrow> real" where
  "clamped_log x = (if x \<le> 0 then - 100 else max (ln x) (- 100))"

definition BCELoss :: "vec \<Rightarrow> vec \<Rightarrow> real" where
  "BCELoss ps ys =
     tensor_mean (map2 (\<lambda>p y. - (y * clamped_log p + (1 - y) * clamped_log (1 - p))) ps ys)"

text \<open>
  The body of the inner loop, lines 152 to 164, on the minibatch \<open>samples\<close>. The lists
  of losses and accuracies of the epoch, the model and torch's generator state go in
  and come out.
\<close>

definition train_batch ::
  "('n, 't, 'o) library \<Rightarrow> optimizer \<Rightarrow> mat \<times> vec
     \<Rightarrow> real list \<times> real list \<times> 'o DeepResnet \<times> 't
     \<Rightarrow> real list \<times> real list \<times> 'o DeepResnet \<times> 't" where
  "train_batch lib opt samples acc =
     (let (losses, accs, m, g) = acc;
          (x_train, y_train) = samples;
          (logits, g1) = forward lib m x_train g;
          probabilities = squeeze (torch_sigmoid logits);
          loss = BCELoss probabilities y_train;
          losses1 = losses @ [loss];
          m1 = zero_grad opt m;
          m2 = loss_backward lib m g x_train y_train m1;
          m3 = optimizer_step lib opt m2;
          predictions = map (\<lambda>p. if 0.5 < p then 1 else 0) probabilities;
          num_correct = map2 (\<lambda>p y. if p = y then 1 else 0) predictions y_train;
          accs1 = accs @ [tensor_mean num_correct]
      in (losses1, accs1, m3, g1))"

fun batch_loop ::
  "('n, 't, 'o) library \<Rightarrow> optimizer \<Rightarrow> (mat \<times> vec) list
     \<Rightarrow> real list \<times> real list \<times> 'o DeepResnet \<times> 't
     \<Rightarrow> real list \<times> real list \<times> 'o DeepResnet \<times> 't" where
  "batch_loop lib opt [] acc = acc"
| "batch_loop lib opt (samples # rest) acc = batch_loop lib opt rest (train_batch lib opt samples acc)"

text \<open>
  \<^verbatim>\<open>TensorDataset\<close> pairs every example with its label. One pass over the shuffling
  \<^verbatim>\<open>DataLoader\<close> visits the dataset in a freshly drawn order, \<open>batch_size\<close> examples at
  a time; the last minibatch holds what is left.
\<close>

definition TensorDataset :: "point list \<Rightarrow> real list \<Rightarrow> (point \<times> real) list" where
  "TensorDataset examples labels = zip examples labels"

definition collate :: "(point \<times> real) list \<Rightarrow> mat \<times> vec" where
  "collate batch = (map (\<lambda>((a, b), l). [a, b]) batch, map snd batch)"

definition iterate_dataloader ::
  "('n, 't, 'o) library \<Rightarrow> (point \<times> real) list \<Rightarrow> nat \<Rightarrow> 't \<Rightarrow> (mat \<times> vec) list \<times> 't" where
  "iterate_dataloader lib dataset batch_size g =
     (let (order, g1) = torch_randperm lib g (length dataset);
          shuffled = map (\<lambda>i. dataset ! i) order;
          n_batches = (length shuffled + batch_size - 1) div batch_size
      in (map (\<lambda>k. collate (take batch_size (drop (k * batch_size) shuffled))) [0..<n_batches],
          g1))"

text \<open>What the script prints.\<close>

datatype printed =
  PrintShape "nat list"
| EpochHeader nat nat
| AverageLoss real
| AverageAccuracy real

record ('t, 'o) train_state =
  model :: "'o DeepResnet"
  rng :: 't
  stdout :: "printed list"

text \<open>
  The body of the outer loop, lines 148 to 170. The two averages are Python divisions
  by \<^verbatim>\<open>len(losses)\<close> and \<^verbatim>\<open>len(accs)\<close>, which raise when no minibatch was seen.
\<close>

definition train_epoch ::
  "('n, 't, 'o) library \<Rightarrow> optimizer \<Rightarrow> (point \<times> real) list \<Rightarrow> nat \<Rightarrow> nat \<Rightarrow> nat
     \<Rightarrow> ('t, 'o) train_state \<Rightarrow> failure + ('t, 'o) train_state" where
  "train_epoch lib opt dataset batch_size num_epochs epoch st =
     (let out1 = stdout st @ [EpochHeader (epoch + 1) num_epochs];
          (batches, g1) = iterate_dataloader lib dataset batch_size (rng st);
          (losses, accs, m, g2) = batch_loop lib opt batches ([], [], model st, g1)
      in if length losses = 0 then Inl ZeroDivisionError
         else if length accs = 0 then Inl ZeroDivisionError
         else Inr \<lparr>model = m, rng = g2,
                   stdout = out1 @ [AverageLoss (sum_list losses / real (length losses)),
                                    AverageAccuracy (sum_list accs / real (length accs))]\<rparr>)"

text \<open>\<^verbatim>\<open>for epoch in range(num_epochs)\<close>, over the list of epochs still to run.\<close>

fun training_loop ::
  "('n, 't, 'o) library \<Rightarrow> optimizer \<Rightarrow> (point \<times> real) list \<Rightarrow> nat \<Rightarrow> nat \<Rightarrow> nat list
     \<Rightarrow> ('t, 'o) train_state \<Rightarrow> failure + ('t, 'o) train_state" where
  "training_loop lib opt dataset batch_size num_epochs [] st = Inr st"
| "training_loop lib opt dataset batch_size num_epochs (epoch # rest) st =
     (case train_epoch lib opt dataset batch_size num_epochs epoch st of
        Inl e \<Rightarrow> Inl e
      | Inr st1 \<Rightarrow> training_loop lib opt dataset batch_size num_epochs rest st1)"

section \<open>The script\<close>

text \<open>
  The two process-wide generators. Their states when the process starts are not chosen
  by the script.
\<close>

record ('n, 't) generators =
  np_rng :: 'n
  torch_rng :: 't

text \<open>A batch of points as a tensor with two columns.\<close>

definition as_tensor :: "point list \<Rightarrow> mat" where
  "as_tensor ps = map (\<lambda>(a, b). [a, b]) ps"

text \<open>
  Lines 25 to 145: the seeds, the data, the model with its input layer frozen, the
  optimizer and the dataset. The scatter plot of lines 76 to 90 draws and changes
  nothing. \<open>start\<close> is the state in which the training loop is entered.
\<close>

record ('n, 't, 'o) prepared =
  train_examples :: "point list"
  train_labels :: "real list"
  test_examples :: "point list"
  ood_examples :: "point list"
  initial_model :: "'o DeepResnet"
  optim :: optimizer
  dataset :: "(point \<times> real) list"
  start :: "('t, 'o) train_state"
  np_state :: 'n

definition num_epochs :: nat where
  "num_epochs = 100"

definition batch_size :: nat where
  "batch_size = 128"

definition script_setup ::
  "('n, 't, 'o) library \<Rightarrow> ('n, 't) generators \<Rightarrow> ('n, 't, 'o) prepared" where
  "script_setup lib env =
     (let env1 = env\<lparr>np_rng := np_seed lib 0\<rparr>;
          env2 = env1\<lparr>torch_rng := torch_seed lib 0\<rparr>;
          ((examples, labels), n1) = make_training_data lib 500 (np_rng env2);
          grid = make_testing_data DEFAULT_X_RANGE DEFAULT_Y_RANGE DEFAULT_N_GRID;
          (ood, n2) = make_ood_data lib 500 (2.5, - 1.75) (0.01, 0.01) n1;
          out0 = [PrintShape [length examples, 2], PrintShape [length labels],
                  PrintShape [length grid, 2], PrintShape [length ood, 2]];
          (resnet_model, t1) = DeepResnet_init lib 2 6 128 0.01 1 (torch_rng env2);
          resnet_model1 = freeze_input_layer resnet_model
      in \<lparr>train_examples = examples, train_labels = labels,
          test_examples = grid, ood_examples = ood,
          initial_model = resnet_model,
          optim = optim_Adam (parameters resnet_model1) (1 / 10000),
          dataset = TensorDataset examples labels,
          start = \<lparr>model = resnet_model1, rng = t1, stdout = out0\<rparr>,
          np_state = n2\<rparr>)"

text \<open>Lines 147 to 170: the training loop, entered in the prepared state.\<close>

record ('n, 't, 'o) trained =
  prep :: "('n, 't, 'o) prepared"
  state :: "('t, 'o) train_state"

definition script_train ::
  "('n, 't, 'o) library \<Rightarrow> ('n, 't) generators \<Rightarrow> failure + ('n, 't, 'o) trained" where
  "script_train lib env =
     (let p = script_setup lib env
      in case training_loop lib (optim p) (dataset p) batch_size num_epochs [0..<num_epochs]
                (start p) of
           Inl e \<Rightarrow> Inl e
         | Inr st \<Rightarrow> Inr \<lparr>prep = p, state = st\<rparr>)"

text \<open>
  Lines 209 to 232: the forward pass over the evaluation grid, on the model as the
  training loop left it, and the two surfaces. The logits have one column; the
  probabilities and the uncertainty scores are handled as the vector of their entries.
\<close>

record ('n, 't, 'o) figures =
  grid_logits :: mat
  grid_probs :: vec
  class_probability_surface :: mat
  uncertainty_surface :: mat
  torch_state :: 't

definition script_visualize ::
  "('n, 't, 'o) library \<Rightarrow> ('n, 't, 'o) trained \<Rightarrow> failure + ('n, 't, 'o) figures" where
  "script_visualize lib tr =
     (let (logits, t1) = forward lib (model (state tr)) (as_tensor (test_examples (prep tr)))
                           (rng (state tr));
          probs = scalar_rsub 1 (squeeze (torch_sigmoid logits))
      in case plot_uncertainty_surface probs of
           Inl e \<Rightarrow> Inl e
         | Inr pcm1 \<Rightarrow>
             (case plot_uncertainty_surface (resnet_uncertainty probs) of
                Inl e \<Rightarrow> Inl e
              | Inr pcm2 \<Rightarrow> Inr \<lparr>grid_logits = logits, grid_probs = probs,
                                  class_probability_surface = pcm1,
                                  uncertainty_surface = pcm2, torch_state = t1\<rparr>))"

definition script ::
  "('n, 't, 'o) library \<Rightarrow> ('n, 't) generators
     \<Rightarrow> failure + ('n, 't, 'o) trained \<times> ('n, 't, 'o) figures" where
  "script lib env =
     (case script_train lib env of
        Inl e \<Rightarrow> Inl e
      | Inr tr \<Rightarrow> (case script_visualize lib tr of
                     Inl e \<Rightarrow> Inl e
                   | Inr figs \<Rightarrow> Inr (tr, figs)))"

text \<open>
  The models an optimizer step can leave behind: the model training starts from, and
  the model after one more pass through the body of the inner loop, on any minibatch
  and from any generator state.
\<close>

inductive trained_from ::
  "('n, 't, 'o) library \<Rightarrow> optimizer \<Rightarrow> 'o DeepResnet \<Rightarrow> 'o DeepResnet \<Rightarrow> bool"
  for lib :: "('n, 't, 'o) library" and opt :: optimizer and m0 :: "'o DeepResnet" where
  start: "trained_from lib opt m0 m0"
| step: "trained_from lib opt m0 m \<Longrightarrow>
         train_batch lib opt samples (losses, accs, m, g) = (losses1, accs1, m1, g1) \<Longrightarrow>
         trained_from lib opt m0 m1"

code_pred trained_from .

text \<open>
  The losses and accuracies the inner loop records in the epoch that starts in state
  \<open>st\<close>.
\<close>

definition epoch_records ::
  "('n, 't, 'o) library \<Rightarrow> optimizer \<Rightarrow> (point \<times> real) list \<Rightarrow> nat
     \<Rightarrow> ('t, 'o) train_state \<Rightarrow> real list \<times> real list" where
  "epoch_records lib opt data bs st =
     (let (batches, g1) = iterate_dataloader lib data bs (rng st);
          (losses, accs, m, g2) = batch_loop lib opt batches ([], [], model st, g1)
      in (losses, accs))"

text \<open>A layer is frozen when its parameters require no gradient and hold none.\<close>

definition frozen :: "'o linear \<Rightarrow> bool" where
  "frozen lin \<longleftrightarrow>
     \<not> requires_grad (weight lin) \<and> \<not> requires_grad (bias lin) \<and>
     grad (weight lin) = None \<and> grad (bias lin) = None"


section \<open>Properties of the uncertainty heuristic\<close>

lemma resnet_uncertainty_map:
  "resnet_uncertainty ps = map (\<lambda>p. p * (1 - p)) ps"
  by (induction ps) (simp_all add: resnet_uncertainty_def tensor_mul_def scalar_rsub_def)

text \<open>
  Claim C7. Every entry of \<^verbatim>\<open>resnet_uncertainty\<close> is \<open>p * (1 - p)\<close> for the entry
  \<open>p\<close> of the probability array at the same index. That score is never above \<open>1/4\<close>,
  the score of \<open>p = 1/2\<close>, reaches it at \<open>p = 1/2\<close> only, and is \<open>0\<close> exactly when
  \<open>p\<close> is \<open>0\<close> or \<open>1\<close>. This holds for every real \<open>p\<close>, so in particular for every
  probability in \<open>[0, 1]\<close>.
\<close>

theorem resnet_uncertainty_peak_and_zeros:
  assumes "i < length resnet_probs"
  shows "length (resnet_uncertainty resnet_probs) = length resnet_probs
       \<and> resnet_uncertainty resnet_probs ! i = resnet_probs ! i * (1 - resnet_probs ! i)
       \<and> resnet_uncertainty [1/2] = [1/4]
       \<and> resnet_uncertainty resnet_probs ! i \<le> 1/4
       \<and> (resnet_uncertainty resnet_probs ! i = 1/4 \<longleftrightarrow> resnet_probs ! i = 1/2)
       \<and> (resnet_uncertainty resnet_probs ! i = 0 \<longleftrightarrow> resnet_probs ! i = 0 \<or> resnet_probs ! i = 1)"
proof -
  define p where "p = resnet_probs ! i"
  have entry: "resnet_uncertainty resnet_probs ! i = p * (1 - p)"
    using assms by (simp add: resnet_uncertainty_map p_def)
  have sq: "1/4 - p * (1 - p) = (p - 1/2)\<^sup>2"
    by (simp add: power2_eq_square algebra_simps)
  have "0 \<le> (p - 1/2)\<^sup>2" by simp
  with sq have le: "p * (1 - p) \<le> 1/4" by linarith
  have "p * (1 - p) = 1/4 \<longleftrightarrow> (p - 1/2)\<^sup>2 = 0" using sq by linarith
  then have peak: "p * (1 - p) = 1/4 \<longleftrightarrow> p = 1/2" by simp
  have zero: "p * (1 - p) = 0 \<longleftrightarrow> p = 0 \<or> p = 1" by auto
  show ?thesis
    using entry le peak zero
    by (simp add: resnet_uncertainty_map p_def [symmetric])
qed

theorem resnet_uncertainty_peak_and_zeros_witness:
  "(1::nat) < length [0, 1/2, 1 :: real]
   \<and> resnet_uncertainty [0, 1/2, 1] ! 1 = 1/4
   \<and> resnet_uncertainty [0, 1/2, 1] ! 1 \<le> 1/4"
  using resnet_uncertainty_peak_and_zeros [of 1 "[0, 1/2, 1]"] by simp

section \<open>Properties of the evaluation grid\<close>

lemma length_linspace: "length (linspace a b n) = n"
  by (simp add: linspace_def Let_def)

lemma linspace_formula:
  "linspace a b n = map (\<lambda>i. a + real i * ((b - a) / real (n - 1))) [0..<n]"
proof (rule nth_equalityI)
  show "length (linspace a b n) = length (map (\<lambda>i. a + real i * ((b - a) / real (n - 1))) [0..<n])"
    by (simp add: length_linspace)
next
  fix i assume "i < length (linspace a b n)"
  then have i: "i < n" by (simp add: length_linspace)
  show "linspace a b n ! i = map (\<lambda>i. a + real i * ((b - a) / real (n - 1))) [0..<n] ! i"
  proof (cases "1 < n")
    case True
    then have "real (n - 1) * ((b - a) / real (n - 1)) = b - a" by simp
    with True i show ?thesis
      by (auto simp add: linspace_def Let_def nth_list_update algebra_simps)
  next
    case False
    with i have "n = 1" "i = 0" by simp_all
    then show ?thesis by (simp add: linspace_def)
  qed
qed

lemma distinct_linspace:
  assumes "a \<noteq> b" and "1 < n"
  shows "distinct (linspace a b n)"
proof -
  have "(b - a) / real (n - 1) \<noteq> 0" using assms by simp
  then have "inj (\<lambda>i::nat. a + real i * ((b - a) / real (n - 1)))"
    by (auto simp add: inj_on_def)
  then show ?thesis
    unfolding linspace_formula by (simp add: distinct_map inj_on_def)
qed

lemma zip_replicate_right: "zip xs (replicate (length xs) b) = map (\<lambda>a. (a, b)) xs"
  by (induction xs) simp_all

lemma zip_mesh:
  "zip (concat (replicate (length ys) xs)) (concat (map (\<lambda>v. replicate (length xs) v) ys))
     = concat (map (\<lambda>b. map (\<lambda>a. (a, b)) xs) ys)"
  by (induction ys) (simp_all add: zip_replicate_right)

lemma make_testing_data_product:
  "make_testing_data (a, b) (c, d) n =
     concat (map (\<lambda>v. map (\<lambda>u. (u, v)) (linspace a b n)) (linspace c d n))"
  by (simp add: make_testing_data_def meshgrid_def flatten_def stack_last_def zip_mesh)

lemma mesh_swap_product:
  "concat (map (\<lambda>b. map (\<lambda>a. (a, b)) xs) ys) = map prod.swap (List.product ys xs)"
  by (induction ys) simp_all

lemma distinct_mesh:
  assumes "distinct xs" and "distinct ys"
  shows "distinct (concat (map (\<lambda>b. map (\<lambda>a. (a, b)) xs) ys))"
  unfolding mesh_swap_product using assms
  by (simp add: distinct_map distinct_product)

lemma set_mesh:
  "set (concat (map (\<lambda>b. map (\<lambda>a. (a, b)) xs) ys)) = set xs \<times> set ys"
  by auto

lemma length_mesh:
  "length (concat (map (\<lambda>b. map (\<lambda>a. (a, b)) xs) ys)) = length xs * length ys"
  by (induction ys) simp_all

text \<open>
  Claim C4. With the default ranges and grid size, \<^verbatim>\<open>make_testing_data\<close> returns
  10000 points, no point twice, and they are exactly the pairs \<open>(x i, y j)\<close> for
  \<open>i, j < 100\<close>, where \<open>x i = -3.5 + i * 7/99\<close> runs from \<open>-3.5\<close> to \<open>3.5\<close> and
  \<open>y j = -2.5 + j * 5/99\<close> runs from \<open>-2.5\<close> to \<open>2.5\<close> in 99 equal steps each.
\<close>

theorem make_testing_data_default_lattice:
  "length (make_testing_data DEFAULT_X_RANGE DEFAULT_Y_RANGE DEFAULT_N_GRID) = 10000
   \<and> distinct (make_testing_data DEFAULT_X_RANGE DEFAULT_Y_RANGE DEFAULT_N_GRID)
   \<and> set (make_testing_data DEFAULT_X_RANGE DEFAULT_Y_RANGE DEFAULT_N_GRID)
       = (\<lambda>(i, j). (- 3.5 + real i * (7 / 99), - 2.5 + real j * (5 / 99)))
           ` ({..<100} \<times> {..<100})"
proof -
  let ?x = "linspace (- 3.5) 3.5 100" and ?y = "linspace (- 2.5) 2.5 100"
  have grid: "make_testing_data DEFAULT_X_RANGE DEFAULT_Y_RANGE DEFAULT_N_GRID
      = concat (map (\<lambda>v. map (\<lambda>u. (u, v)) ?x) ?y)"
    by (simp add: DEFAULT_X_RANGE_def DEFAULT_Y_RANGE_def DEFAULT_N_GRID_def
        make_testing_data_product)
  have len: "length (concat (map (\<lambda>v. map (\<lambda>u. (u, v)) ?x) ?y)) = 10000"
    by (simp add: length_mesh length_linspace)
  have dx: "distinct ?x" by (rule distinct_linspace) simp_all
  have dy: "distinct ?y" by (rule distinct_linspace) simp_all
  have dist: "distinct (concat (map (\<lambda>v. map (\<lambda>u. (u, v)) ?x) ?y))"
    using dx dy by (rule distinct_mesh)
  have sx: "set ?x = (\<lambda>i. - 3.5 + real i * (7 / 99)) ` {..<100}"
    by (simp add: linspace_formula atLeast0LessThan)
  have sy: "set ?y = (\<lambda>j. - 2.5 + real j * (5 / 99)) ` {..<100}"
    by (simp add: linspace_formula atLeast0LessThan)
  have "set (concat (map (\<lambda>v. map (\<lambda>u. (u, v)) ?x) ?y)) = set ?x \<times> set ?y"
    by (rule set_mesh)
  also have "\<dots> = (\<lambda>(i, j). (- 3.5 + real i * (7 / 99), - 2.5 + real j * (5 / 99)))
           ` ({..<100} \<times> {..<100})"
    unfolding sx sy by auto
  finally show ?thesis using grid len dist by simp
qed

section \<open>Properties of the plotted surface\<close>

lemma concat_reshape_take:
  "concat (map (\<lambda>r. take c (drop (r * c) xs)) [0..<n]) = take (n * c) xs"
proof (induction n)
  case 0
  show ?case by simp
next
  case (Suc n)
  have "take (Suc n * c) xs = take (n * c + c) xs" by (simp add: add.commute)
  also have "\<dots> = take (n * c) xs @ take c (drop (n * c) xs)" by (rule take_add)
  finally show ?case using Suc by simp
qed

lemma np_reshape_concat:
  "length a = rows * cols \<Longrightarrow> \<exists>img. np_reshape a rows cols = Inr img \<and> concat img = a"
  by (simp add: np_reshape_def concat_reshape_take)

lemma normalize_uncertainty_cases:
  "normalize_uncertainty t =
     (if t = [] then Inl MaxOfEmptyTensor
      else if Max (set t) = 0 then Inl DivisionByZero
      else Inr (map (\<lambda>x. x / Max (set t)) t))"
  by (simp add: normalize_uncertainty_def torch_max_def tensor_div_def)

lemma Max_divided:
  fixes t :: "real list"
  assumes "t \<noteq> []" and "0 < Max (set t)"
  shows "Max (set (map (\<lambda>x. x / Max (set t)) t)) = 1"
proof (rule Max_eqI)
  show "finite (set (map (\<lambda>x. x / Max (set t)) t))" by simp
next
  fix y assume "y \<in> set (map (\<lambda>x. x / Max (set t)) t)"
  then obtain x where x: "x \<in> set t" and y: "y = x / Max (set t)" by auto
  from x have "x \<le> Max (set t)" by simp
  with assms(2) show "y \<le> 1" unfolding y by (simp add: divide_le_eq)
next
  have "Max (set t) \<in> set t" using assms(1) by (intro Max_in) simp_all
  then have "Max (set t) / Max (set t) \<in> set (map (\<lambda>x. x / Max (set t)) t)"
    by (simp add: image_iff) blast
  with assms(2) show "1 \<in> set (map (\<lambda>x. x / Max (set t)) t)" by simp
qed

lemma divided_in_unit_interval:
  fixes t :: "real list"
  assumes "\<forall>s\<in>set t. 0 \<le> s" and "0 < Max (set t)" and "v \<in> set (map (\<lambda>x. x / Max (set t)) t)"
  shows "0 \<le> v \<and> v \<le> 1"
proof -
  from assms(3) obtain x where x: "x \<in> set t" and v: "v = x / Max (set t)" by auto
  from x have "x \<le> Max (set t)" by simp
  moreover from x assms(1) have "0 \<le> x" by simp
  ultimately show ?thesis using assms(2) unfolding v by (simp add: divide_le_eq)
qed

text \<open>
  Claim C6, as amended. For a score array that is not empty, whose entries are all
  non-negative and whose maximum is strictly positive, the division of line 185
  yields an array of the same length with maximum exactly \<open>1\<close> and every entry in
  \<open>[0, 1]\<close>; when the array has one entry per grid point, that array is the data of the
  image \<^verbatim>\<open>plot_uncertainty_surface\<close> draws.
\<close>

theorem plot_uncertainty_surface_normalized:
  assumes "scores \<noteq> []" and "\<forall>s\<in>set scores. 0 \<le> s" and "0 < Max (set scores)"
  shows "\<exists>normalized. normalize_uncertainty scores = Inr normalized
           \<and> length normalized = length scores
           \<and> Max (set normalized) = 1
           \<and> (\<forall>v\<in>set normalized. 0 \<le> v \<and> v \<le> 1)
           \<and> (length scores = DEFAULT_N_GRID * DEFAULT_N_GRID \<longrightarrow>
                (\<exists>img. plot_uncertainty_surface scores = Inr img \<and> concat img = normalized))"
proof -
  let ?n = "map (\<lambda>x. x / Max (set scores)) scores"
  have run: "normalize_uncertainty scores = Inr ?n"
    using assms(1,3) by (simp add: normalize_uncertainty_cases)
  have top: "Max (set ?n) = 1" using assms(1,3) by (rule Max_divided)
  have unit: "\<forall>v\<in>set ?n. 0 \<le> v \<and> v \<le> 1"
    using divided_in_unit_interval [OF assms(2,3)] by blast
  have img: "length scores = DEFAULT_N_GRID * DEFAULT_N_GRID \<longrightarrow>
      (\<exists>img. plot_uncertainty_surface scores = Inr img \<and> concat img = ?n)"
    using np_reshape_concat [of ?n DEFAULT_N_GRID DEFAULT_N_GRID]
    by (simp add: plot_uncertainty_surface_def run)
  from run top unit img show ?thesis by simp
qed

theorem plot_uncertainty_surface_normalized_witness:
  "replicate 10000 (1/4 :: real) \<noteq> []
   \<and> list_all (\<lambda>s. 0 \<le> s) (replicate 10000 (1/4 :: real))
   \<and> 0 < Max (set (replicate 10000 (1/4 :: real)))
   \<and> length (replicate 10000 (1/4 :: real)) = DEFAULT_N_GRID * DEFAULT_N_GRID
   \<and> (\<exists>img. plot_uncertainty_surface (replicate 10000 (1/4)) = Inr img
         \<and> Max (set (concat img)) = 1)"
proof -
  have h1: "replicate 10000 (1/4 :: real) \<noteq> []" by simp
  have h2: "\<forall>s\<in>set (replicate 10000 (1/4 :: real)). 0 \<le> s" by simp
  have h3: "0 < Max (set (replicate 10000 (1/4 :: real)))" by simp
  have h4: "length (replicate 10000 (1/4 :: real)) = DEFAULT_N_GRID * DEFAULT_N_GRID"
    by (simp add: DEFAULT_N_GRID_def)
  from plot_uncertainty_surface_normalized [OF h1 h2 h3] h4
  have "\<exists>img. plot_uncertainty_surface (replicate 10000 (1/4)) = Inr img
         \<and> Max (set (concat img)) = 1"
    by auto
  with h1 h2 h3 h4 show ?thesis by (simp add: list_all_iff)
qed

text \<open>
  The claim as written, for every score array, fails on arrays of the plotted size:
  with a negative entry the normalized array leaves \<open>[0, 1]\<close> (its first entry is
  \<open>-1/2\<close>), and with all entries \<open>0\<close> there is no normalized array at all.
\<close>

theorem plot_uncertainty_surface_normalized_counterexample:
  "map_sum id concat (plot_uncertainty_surface ((- 1) # replicate 9999 2))
     = Inr ((- 1/2) # replicate 9999 1)
   \<and> (- 1/2 :: real) < 0
   \<and> plot_uncertainty_surface (replicate 10000 0) = Inl DivisionByZero"
proof -
  let ?t = "(- 1) # replicate 9999 (2::real)"
  have m: "Max (set ?t) = 2" by simp
  have n: "normalize_uncertainty ?t = Inr ((- 1/2) # replicate 9999 1)"
    by (simp add: normalize_uncertainty_cases m del: set_simps)
  have "length ((- 1/2) # replicate 9999 (1::real)) = DEFAULT_N_GRID * DEFAULT_N_GRID"
    by (simp add: DEFAULT_N_GRID_def)
  from np_reshape_concat [OF this]
  have first: "map_sum id concat (plot_uncertainty_surface ?t) = Inr ((- 1/2) # replicate 9999 1)"
    by (auto simp add: plot_uncertainty_surface_def n)
  have second: "plot_uncertainty_surface (replicate 10000 0) = Inl DivisionByZero"
    by (simp add: plot_uncertainty_surface_def normalize_uncertainty_cases np_reshape_def
        DEFAULT_N_GRID_def)
  from first second show ?thesis by simp
qed

text \<open>
  Claim C10, as amended. Line 185 divides by the maximum without a guard. The division
  is by \<open>0\<close> exactly when the score array is not empty and its maximum is \<open>0\<close>. The
  normalized array is defined exactly when the array is not empty and its maximum is
  not \<open>0\<close>, and then holds every score divided by the maximum; a strictly positive
  maximum is one such case, a negative maximum another. An array with maximum \<open>0\<close>
  goes on to the reshape with entries that are not numbers: it is rejected there when
  its size is not that of the grid, and drawn as it is otherwise.
\<close>

theorem normalize_uncertainty_unguarded_division:
  "(normalize_uncertainty scores = Inl DivisionByZero
      \<longleftrightarrow> scores \<noteq> [] \<and> Max (set scores) = 0)
   \<and> ((\<exists>normalized. normalize_uncertainty scores = Inr normalized)
      \<longleftrightarrow> scores \<noteq> [] \<and> Max (set scores) \<noteq> 0)
   \<and> (scores \<noteq> [] \<and> Max (set scores) \<noteq> 0 \<longrightarrow>
        normalize_uncertainty scores = Inr (map (\<lambda>s. s / Max (set scores)) scores))
   \<and> (scores \<noteq> [] \<and> 0 < Max (set scores) \<longrightarrow>
        normalize_uncertainty scores = Inr (map (\<lambda>s. s / Max (set scores)) scores))
   \<and> (scores \<noteq> [] \<and> Max (set scores) = 0 \<longrightarrow>
        plot_uncertainty_surface scores
          = (if length scores = DEFAULT_N_GRID * DEFAULT_N_GRID
             then Inl DivisionByZero else Inl ReshapeMismatch))"
  by (auto simp add: normalize_uncertainty_cases plot_uncertainty_surface_def np_reshape_def)

theorem normalize_uncertainty_unguarded_division_witness:
  "replicate 10000 (0 :: real) \<noteq> [] \<and> Max (set (replicate 10000 (0 :: real))) = 0
   \<and> normalize_uncertainty (replicate 10000 0) = Inl DivisionByZero
   \<and> plot_uncertainty_surface (replicate 10000 0) = Inl DivisionByZero
   \<and> [0, 0 :: real] \<noteq> [] \<and> Max (set [0, 0 :: real]) = 0
   \<and> plot_uncertainty_surface [0, 0] = Inl ReshapeMismatch
   \<and> [1/4, 1/8 :: real] \<noteq> [] \<and> 0 < Max (set [1/4, 1/8 :: real])
   \<and> normalize_uncertainty [1/4, 1/8] = Inr [1, 1/2]
   \<and> [- 1, - 2 :: real] \<noteq> [] \<and> Max (set [- 1, - 2 :: real]) \<noteq> 0
   \<and> normalize_uncertainty [- 1, - 2] = Inr [1, 2]"
proof -
  have zeros: "replicate 10000 (0 :: real) \<noteq> []" "Max (set (replicate 10000 (0 :: real))) = 0"
    "length (replicate 10000 (0 :: real)) = DEFAULT_N_GRID * DEFAULT_N_GRID"
    by (simp_all add: DEFAULT_N_GRID_def)
  have pair: "[0, 0 :: real] \<noteq> []" "Max (set [0, 0 :: real]) = 0"
    "length [0, 0 :: real] \<noteq> DEFAULT_N_GRID * DEFAULT_N_GRID"
    by (simp_all add: DEFAULT_N_GRID_def)
  have pos: "[1/4, 1/8 :: real] \<noteq> []" "0 < Max (set [1/4, 1/8 :: real])" by simp_all
  have neg: "[- 1, - 2 :: real] \<noteq> []" "Max (set [- 1, - 2 :: real]) \<noteq> 0" by simp_all
  from normalize_uncertainty_unguarded_division [of "replicate 10000 0"] zeros
  have a: "normalize_uncertainty (replicate 10000 0) = Inl DivisionByZero"
    "plot_uncertainty_surface (replicate 10000 0) = Inl DivisionByZero"
    by simp_all
  from normalize_uncertainty_unguarded_division [of "[0, 0]"] pair
  have b: "plot_uncertainty_surface [0, 0] = Inl ReshapeMismatch" by simp
  from normalize_uncertainty_unguarded_division [of "[1/4, 1/8]"] pos
  have c: "normalize_uncertainty [1/4, 1/8] = Inr [1, 1/2]" by simp
  from normalize_uncertainty_unguarded_division [of "[- 1, - 2]"] neg
  have d: "normalize_uncertainty [- 1, - 2] = Inr [1, 2]" by simp
  from zeros(1,2) pair(1,2) pos neg a b c d show ?thesis by blast
qed

text \<open>
  The claim as written makes a strictly positive maximum the only case in which the
  normalization is defined. An array of the size of the grid whose entries are all
  \<open>-1\<close> has the maximum \<open>-1\<close>, and its normalization is defined and drawn: every
  entry is \<open>1\<close>.
\<close>

theorem normalize_uncertainty_negative_maximum_counterexample:
  "Max (set (replicate 10000 (- 1 :: real))) = - 1
   \<and> normalize_uncertainty (replicate 10000 (- 1)) = Inr (replicate 10000 1)
   \<and> map_sum id concat (plot_uncertainty_surface (replicate 10000 (- 1)))
       = Inr (replicate 10000 1)"
proof -
  have m: "Max (set (replicate 10000 (- 1 :: real))) = - 1" by simp
  have n: "normalize_uncertainty (replicate 10000 (- 1)) = Inr (replicate 10000 1)"
    by (simp add: normalize_uncertainty_cases)
  have "length (replicate 10000 (1::real)) = DEFAULT_N_GRID * DEFAULT_N_GRID"
    by (simp add: DEFAULT_N_GRID_def)
  from np_reshape_concat [OF this]
  have "map_sum id concat (plot_uncertainty_surface (replicate 10000 (- 1)))
       = Inr (replicate 10000 1)"
    by (auto simp add: plot_uncertainty_surface_def n)
  with m n show ?thesis by blast
qed

section \<open>Properties of the training data\<close>

lemma shuffled_labels_mset:
  assumes "mset indices = mset [0..<length y]"
  shows "mset (map (\<lambda>i. y ! i) indices) = mset y"
proof -
  have "mset (map (\<lambda>i. y ! i) indices) = image_mset (\<lambda>i. y ! i) (mset indices)" by simp
  also have "\<dots> = mset (map (\<lambda>i. y ! i) [0..<length y])" using assms by simp
  also have "\<dots> = mset y" by (simp add: map_nth)
  finally show ?thesis .
qed

lemma make_moons_shape:
  assumes "shuffles_permute lib" and "make_moons lib n noise g = ((X, y), g')"
  shows "length X = n" and "length y = n"
    and "mset y = mset (replicate (n div 2) 0 @ replicate (n - n div 2) (1::nat))"
proof -
  obtain indices g1 where sh: "np_shuffle lib g n = (indices, g1)" by force
  from assms(1) have "mset (fst (np_shuffle lib g n)) = mset [0..<n]"
    by (simp add: shuffles_permute_def)
  with sh have perm: "mset indices = mset [0..<n]" by simp
  then have len: "length indices = n" by (metis length_upt mset_eq_length minus_nat.diff_0)
  let ?y0 = "replicate (n div 2) 0 @ replicate (n - n div 2) (1::nat)"
  have y: "y = map (\<lambda>i. ?y0 ! i) indices"
    using assms(2) sh by (simp add: make_moons_def Let_def split_beta)
  have n0: "length ?y0 = n" by simp
  from assms(2) sh len show "length X = n"
    by (auto simp add: make_moons_def Let_def split_beta)
  from y len show "length y = n" by simp
  from perm n0 have "mset indices = mset [0..<length ?y0]" by simp
  from shuffled_labels_mset [OF this] y show "mset y = mset ?y0" by simp
qed

lemma length_add_where_label:
  "length labels = length examples \<Longrightarrow>
     length (add_where_label c offset examples labels) = length examples"
  by (simp add: add_where_label_def)

lemma nth_add_where_label:
  "length labels = length examples \<Longrightarrow> i < length examples \<Longrightarrow>
     add_where_label c offset examples labels ! i
       = (if labels ! i = c then point_add (examples ! i) offset else examples ! i)"
  by (simp add: add_where_label_def)

lemma count_labels:
  fixes y :: "nat list"
  assumes "mset y = mset (replicate a 0 @ replicate b 1)"
  shows "length (filter (\<lambda>l. l = 0) y) = a" and "length (filter (\<lambda>l. l = 1) y) = b"
    and "set y \<subseteq> {0, 1}"
proof -
  let ?xs = "replicate a 0 @ replicate b (1::nat)"
  have count: "length (filter P y) = length (filter P ?xs)" for P
  proof -
    have "length (filter P y) = size (filter_mset P (mset y))"
      by (simp only: mset_filter [symmetric] size_mset)
    also have "\<dots> = size (filter_mset P (mset ?xs))" using assms by simp
    also have "\<dots> = length (filter P ?xs)"
      by (simp only: mset_filter [symmetric] size_mset)
    finally show ?thesis .
  qed
  show "length (filter (\<lambda>l. l = 0) y) = a" unfolding count by simp
  show "length (filter (\<lambda>l. l = 1) y) = b" unfolding count by simp
  have "set y = set ?xs"
    using assms by (rule mset_eq_setD)
  then show "set y \<subseteq> {0, 1}" by auto
qed

lemma filter_map_real:
  "length (filter (\<lambda>l. l = real c) (map real y)) = length (filter (\<lambda>l. l = c) y)"
  by (induction y) simp_all

text \<open>
  Claim C5. When the library's shuffle is a permutation, \<^verbatim>\<open>make_training_data(500)\<close>
  returns 1000 points and 1000 labels, every label is \<open>0\<close> or \<open>1\<close>, 500 labels are \<open>0\<close>
  and 500 are \<open>1\<close>, and each returned point is the point \<^verbatim>\<open>make_moons\<close> produced at
  that position moved by \<open>(-0.1, 0.2)\<close> when its label is \<open>0\<close> and by \<open>(0.1, -0.2)\<close> when
  its label is \<open>1\<close>.
\<close>

theorem make_training_data_500:
  assumes "shuffles_permute lib"
  shows "let ((examples, labels), g1) = make_training_data lib 500 g;
             ((X, y), g2) = make_moons lib 1000 0.1 g
         in length examples = 1000 \<and> length labels = 1000
          \<and> set labels \<subseteq> {0, 1}
          \<and> length (filter (\<lambda>l. l = 0) labels) = 500
          \<and> length (filter (\<lambda>l. l = 1) labels) = 500
          \<and> labels = map real y
          \<and> (\<forall>i<1000. (labels ! i = 0 \<longrightarrow> examples ! i = point_add (X ! i) (- 0.1, 0.2))
                     \<and> (labels ! i = 1 \<longrightarrow> examples ! i = point_add (X ! i) (0.1, - 0.2)))"
proof -
  obtain X y g2 where moons: "make_moons lib 1000 0.1 g = ((X, y), g2)"
    by (metis prod.exhaust)
  note shape = make_moons_shape [OF assms moons]
  from shape(3) have my: "mset y = mset (replicate 500 0 @ replicate 500 (1::nat))" by simp
  note counts = count_labels [OF my]
  let ?e1 = "add_where_label 0 (- 0.1, 0.2) X y"
  let ?e2 = "add_where_label 1 (0.1, - 0.2) ?e1 y"
  have run: "make_training_data lib 500 g = ((?e2, map real y), g2)"
    using moons by (simp add: make_training_data_def)
  have l1: "length ?e1 = 1000" using shape(1,2) by (simp add: length_add_where_label)
  have l2: "length ?e2 = 1000" using shape(2) l1 by (simp add: length_add_where_label)
  have labs: "set (map real y) \<subseteq> {0, 1}" using counts(3) by auto
  have c0: "length (filter (\<lambda>l. l = 0) (map real y)) = 500"
    using filter_map_real [of 0 y] counts(1) by simp
  have c1: "length (filter (\<lambda>l. l = 1) (map real y)) = 500"
    using filter_map_real [of 1 y] counts(2) by simp
  have shift: "(map real y ! i = 0 \<longrightarrow> ?e2 ! i = point_add (X ! i) (- 0.1, 0.2))
             \<and> (map real y ! i = 1 \<longrightarrow> ?e2 ! i = point_add (X ! i) (0.1, - 0.2))"
    if "i < 1000" for i
  proof -
    have "?e2 ! i = (if y ! i = 1 then point_add (?e1 ! i) (0.1, - 0.2) else ?e1 ! i)"
      using that shape(2) l1 by (simp add: nth_add_where_label)
    moreover have "?e1 ! i = (if y ! i = 0 then point_add (X ! i) (- 0.1, 0.2) else X ! i)"
      using that shape(1,2) by (simp add: nth_add_where_label)
    ultimately show ?thesis using that shape(2) by auto
  qed
  show ?thesis
    unfolding run moons using l2 shape(2) labs c0 c1 shift by simp
qed

theorem make_training_data_500_witness:
  "shuffles_permute still_library
   \<and> length (fst (fst (make_training_data still_library 500 ()))) = 1000
   \<and> length (filter (\<lambda>l. l = 0) (snd (fst (make_training_data still_library 500 ())))) = 500"
proof -
  have ok: "shuffles_permute still_library"
    by (simp add: shuffles_permute_def still_library_def)
  from make_training_data_500 [OF ok, of "()"]
  have "length (fst (fst (make_training_data still_library 500 ()))) = 1000
      \<and> length (filter (\<lambda>l. l = 0) (snd (fst (make_training_data still_library 500 ())))) = 500"
    unfolding Let_def split_beta by blast
  with ok show ?thesis by blast
qed

section \<open>Properties of the forward pass\<close>

lemma residual_blocks_from:
  "k \<le> length (linears m) \<Longrightarrow>
     residual_blocks lib (dropout m) (training m) (drop k (linears m))
         (fst (spec_hidden lib m inputs g k)) (snd (spec_hidden lib m inputs g k))
       = spec_hidden lib m inputs g (length (linears m))"
proof (induction "length (linears m) - k" arbitrary: k)
  case 0
  then have "k = length (linears m)" by simp
  then show ?case by simp
next
  case (Suc d)
  then have k: "k < length (linears m)" by simp
  then have cut: "drop k (linears m) = linears m ! k # drop (Suc k) (linears m)"
    by (simp add: Cons_nth_drop_Suc)
  from Suc(2) k have "d = length (linears m) - Suc k" by simp
  moreover from k have "Suc k \<le> length (linears m)" by simp
  ultimately have IH: "residual_blocks lib (dropout m) (training m) (drop (Suc k) (linears m))
         (fst (spec_hidden lib m inputs g (Suc k))) (snd (spec_hidden lib m inputs g (Suc k)))
       = spec_hidden lib m inputs g (length (linears m))"
    by (rule Suc(1))
  show ?case
    unfolding cut using IH by (simp add: split_beta Let_def)
qed

lemma hidden_layers_length: "length (fst (hidden_layers lib n_hidden k g)) = k"
  by (induction k arbitrary: g) (simp_all add: split_beta Let_def)

lemma DeepResnet_init_fields:
  "linears (fst (DeepResnet_init lib nf nl nh r no g)) =
      fst (hidden_layers lib nh nl (snd (nn_Linear lib nf nh g)))"
  "num_layers (fst (DeepResnet_init lib nf nl nh r no g)) = nl"
  "training (fst (DeepResnet_init lib nf nl nh r no g)) = True"
  "dropout (fst (DeepResnet_init lib nf nl nh r no g)) = r"
  by (simp_all add: DeepResnet_init_def split_beta Let_def)

text \<open>
  Claim C2. For every model, input and generator state, \<^verbatim>\<open>forward\<close> returns the
  output projection, and nothing more (no sigmoid), of the hidden state reached by this
  recurrence: it starts from the input projection of the input, and block \<open>k\<close>, in the
  order of the list, replaces the hidden state \<open>h\<close> by \<open>h + dropout (relu (block k h))\<close>.
  All blocks of the list are applied, and a constructed model has \<open>num_layers\<close> of them.
\<close>

theorem forward_residual_recurrence:
  "forward lib m inputs g =
     (let (hidden, g1) = spec_hidden lib m inputs g (length (linears m))
      in (linear_forward (classifier m) hidden, g1))
   \<and> length (linears (fst (DeepResnet_init lib nf nl nh r no g0))) = nl
   \<and> num_layers (fst (DeepResnet_init lib nf nl nh r no g0)) = nl"
proof -
  have "residual_blocks lib (dropout m) (training m) (linears m)
          (linear_forward (input_layer m) inputs) g
        = spec_hidden lib m inputs g (length (linears m))"
    using residual_blocks_from [of 0 m lib inputs g] by simp
  then have "forward lib m inputs g =
     (let (hidden, g1) = spec_hidden lib m inputs g (length (linears m))
      in (linear_forward (classifier m) hidden, g1))"
    by (simp add: forward_def)
  then show ?thesis
    by (simp add: DeepResnet_init_fields hidden_layers_length)
qed

section \<open>The frozen input layer\<close>

lemma input_layer_update_layer:
  "input_layer (update_layer l f m) = (if l = InputLayer then f (input_layer m) else input_layer m)"
  by (cases l) simp_all

lemma clear_grad_idle: "grad p = None \<Longrightarrow> p\<lparr>grad := None\<rparr> = p"
  by (cases p) simp

lemma zero_grad_param_frozen:
  "frozen (input_layer m) \<Longrightarrow> input_layer (zero_grad_param r m) = input_layer m"
  by (cases r) (simp_all add: input_layer_update_layer frozen_def clear_grad_idle)

lemma fold_zero_grad_frozen:
  "frozen (input_layer m) \<Longrightarrow> input_layer (fold zero_grad_param rs m) = input_layer m"
  by (induction rs arbitrary: m) (simp_all add: zero_grad_param_frozen)

lemma zero_grad_frozen:
  "frozen (input_layer m) \<Longrightarrow> input_layer (zero_grad opt m) = input_layer m"
  by (simp add: zero_grad_def fold_zero_grad_frozen)

lemma accumulate_idle: "\<not> requires_grad p \<Longrightarrow> accumulate add g p = p"
  by (simp add: accumulate_def)

lemma loss_backward_frozen:
  "frozen (input_layer m) \<Longrightarrow> input_layer (loss_backward lib fm fg x y m) = input_layer m"
  by (simp add: loss_backward_def backward_layer_def frozen_def accumulate_idle)

lemma adam_update_idle: "grad p = None \<Longrightarrow> adam_update rule rate p = p"
  by (simp add: adam_update_def)

lemma step_param_frozen:
  "frozen (input_layer m) \<Longrightarrow> input_layer (step_param lib rate r m) = input_layer m"
  by (cases r) (simp_all add: input_layer_update_layer frozen_def adam_update_idle)

lemma fold_step_param_frozen:
  "frozen (input_layer m) \<Longrightarrow> input_layer (fold (step_param lib rate) rs m) = input_layer m"
  by (induction rs arbitrary: m) (simp_all add: step_param_frozen)

lemma optimizer_step_frozen:
  "frozen (input_layer m) \<Longrightarrow> input_layer (optimizer_step lib opt m) = input_layer m"
  by (simp add: optimizer_step_def fold_step_param_frozen)

lemma train_batch_model:
  "train_batch lib opt samples (losses, accs, m, g) = (losses1, accs1, m1, g1) \<Longrightarrow>
     m1 = optimizer_step lib opt
            (loss_backward lib m g (fst samples) (snd samples) (zero_grad opt m))"
  by (auto simp add: train_batch_def Let_def split_beta)

lemma train_batch_frozen:
  assumes "frozen (input_layer m)"
    and "train_batch lib opt samples (losses, accs, m, g) = (losses1, accs1, m1, g1)"
  shows "input_layer m1 = input_layer m"
proof -
  let ?a = "zero_grad opt m"
  let ?b = "loss_backward lib m g (fst samples) (snd samples) ?a"
  have a: "input_layer ?a = input_layer m" using assms(1) by (rule zero_grad_frozen)
  then have "frozen (input_layer ?a)" using assms(1) by simp
  then have b: "input_layer ?b = input_layer ?a" by (rule loss_backward_frozen)
  with a assms(1) have "frozen (input_layer ?b)" by simp
  then have "input_layer (optimizer_step lib opt ?b) = input_layer ?b"
    by (rule optimizer_step_frozen)
  with a b train_batch_model [OF assms(2)] show ?thesis by simp
qed

lemma trained_from_frozen:
  assumes "trained_from lib opt m0 m" and "frozen (input_layer m0)"
  shows "input_layer m = input_layer m0"
  using assms
proof (induction rule: trained_from.induct)
  case start
  show ?case by simp
next
  case (step m samples losses accs g losses1 accs1 m1 g1)
  then have "input_layer m = input_layer m0" by simp
  moreover from this step.prems have "frozen (input_layer m)" by simp
  from train_batch_frozen [OF this step.hyps(2)] have "input_layer m1 = input_layer m" .
  ultimately show ?case by simp
qed

lemma batch_loop_trained_from:
  "trained_from lib opt m0 m \<Longrightarrow>
     batch_loop lib opt batches (losses, accs, m, g) = (losses1, accs1, m1, g1) \<Longrightarrow>
     trained_from lib opt m0 m1"
proof (induction batches arbitrary: losses accs m g)
  case Nil
  then show ?case by simp
next
  case (Cons samples rest)
  obtain l2 a2 m2 g2 where one: "train_batch lib opt samples (losses, accs, m, g) = (l2, a2, m2, g2)"
    by (metis prod_cases4)
  from Cons.prems(1) one have "trained_from lib opt m0 m2" by (rule trained_from.step)
  moreover from Cons.prems(2) one
  have "batch_loop lib opt rest (l2, a2, m2, g2) = (losses1, accs1, m1, g1)" by simp
  ultimately show ?case by (rule Cons.IH)
qed

lemma train_epoch_trained_from:
  assumes "trained_from lib opt m0 (model st)"
    and "train_epoch lib opt data bs n epoch st = Inr st1"
  shows "trained_from lib opt m0 (model st1)"
proof -
  obtain batches g1 where it: "iterate_dataloader lib data bs (rng st) = (batches, g1)"
    by force
  obtain losses accs m g2
    where run: "batch_loop lib opt batches ([], [], model st, g1) = (losses, accs, m, g2)"
    by (metis prod_cases4)
  from assms(2) it run have "model st1 = m"
    by (auto simp add: train_epoch_def Let_def split: if_splits)
  with batch_loop_trained_from [OF assms(1) run] show ?thesis by simp
qed

lemma training_loop_trained_from:
  "trained_from lib opt m0 (model st) \<Longrightarrow>
     training_loop lib opt data bs n epochs st = Inr st1 \<Longrightarrow>
     trained_from lib opt m0 (model st1)"
proof (induction epochs arbitrary: st)
  case Nil
  then show ?case by simp
next
  case (Cons epoch rest)
  from Cons.prems(2) obtain st2
    where one: "train_epoch lib opt data bs n epoch st = Inr st2"
      and more: "training_loop lib opt data bs n rest st2 = Inr st1"
    by (auto split: sum.splits)
  from train_epoch_trained_from [OF Cons.prems(1) one] more show ?case by (rule Cons.IH)
qed

lemma nn_Linear_fresh:
  "requires_grad (weight (fst (nn_Linear lib a b g)))"
  "requires_grad (bias (fst (nn_Linear lib a b g)))"
  "grad (weight (fst (nn_Linear lib a b g))) = None"
  "grad (bias (fst (nn_Linear lib a b g))) = None"
  by (simp_all add: nn_Linear_def new_param_def split_beta)

lemma freeze_input_layer_frozen:
  "frozen (input_layer (freeze_input_layer (fst (DeepResnet_init lib nf nl nh r no g))))"
  by (simp add: freeze_input_layer_def frozen_def DeepResnet_init_def split_beta Let_def
      nn_Linear_fresh)

lemma freeze_input_layer_pdata:
  "pdata (weight (input_layer (freeze_input_layer m))) = pdata (weight (input_layer m))"
  "pdata (bias (input_layer (freeze_input_layer m))) = pdata (bias (input_layer m))"
  by (simp_all add: freeze_input_layer_def)

lemma script_setup_fields:
  "initial_model (script_setup lib env) = fst (DeepResnet_init lib 2 6 128 0.01 1 (torch_seed lib 0))"
  "model (start (script_setup lib env)) = freeze_input_layer (initial_model (script_setup lib env))"
  "dataset (script_setup lib env)
     = TensorDataset (train_examples (script_setup lib env)) (train_labels (script_setup lib env))"
  "(train_examples (script_setup lib env), train_labels (script_setup lib env))
     = fst (make_training_data lib 500 (np_seed lib 0))"
  by (simp_all add: script_setup_def Let_def split_beta)

lemma script_train_trained_from:
  assumes "script_train lib env = Inr tr"
  shows "trained_from lib (optim (prep tr)) (freeze_input_layer (initial_model (prep tr)))
           (model (state tr))"
    and "prep tr = script_setup lib env"
proof -
  let ?p = "script_setup lib env"
  from assms
  have loop: "training_loop lib (optim ?p) (dataset ?p) batch_size num_epochs [0..<num_epochs]
                   (start ?p) = Inr (state tr)"
    and tr: "prep tr = ?p"
    by (auto simp add: script_train_def Let_def split: sum.splits)
  have "trained_from lib (optim ?p) (freeze_input_layer (initial_model ?p)) (model (start ?p))"
    by (simp add: script_setup_fields trained_from.start)
  from training_loop_trained_from [OF this loop] tr
  show "trained_from lib (optim (prep tr)) (freeze_input_layer (initial_model (prep tr)))
           (model (state tr))"
    by simp
  from tr show "prep tr = ?p" .
qed

section \<open>The training loop\<close>

lemma make_training_data_lengths:
  assumes "shuffles_permute lib"
  shows "length (fst (fst (make_training_data lib k g))) = 2 * k"
    and "length (snd (fst (make_training_data lib k g))) = 2 * k"
proof -
  obtain X y g2 where moons: "make_moons lib (2 * k) 0.1 g = ((X, y), g2)"
    by (metis prod.exhaust)
  note shape = make_moons_shape [OF assms moons]
  have run: "fst (make_training_data lib k g)
      = (add_where_label 1 (0.1, - 0.2) (add_where_label 0 (- 0.1, 0.2) X y) y, map real y)"
    using moons by (simp add: make_training_data_def)
  show "length (fst (fst (make_training_data lib k g))) = 2 * k"
    unfolding run using shape(1,2) by (simp add: length_add_where_label)
  show "length (snd (fst (make_training_data lib k g))) = 2 * k"
    unfolding run using shape(2) by simp
qed

lemma script_dataset_length:
  assumes "shuffles_permute lib"
  shows "length (dataset (script_setup lib env)) = 1000"
proof -
  let ?d = "fst (make_training_data lib 500 (np_seed lib 0))"
  have "dataset (script_setup lib env) = TensorDataset (fst ?d) (snd ?d)"
    by (simp add: script_setup_def Let_def split_beta)
  then show ?thesis
    using make_training_data_lengths [OF assms, of 500 "np_seed lib 0"]
    by (simp add: TensorDataset_def)
qed

lemma train_batch_lengths:
  "train_batch lib opt samples (losses, accs, m, g) = (l1, a1, m1, g1) \<Longrightarrow>
     length l1 = Suc (length losses) \<and> length a1 = Suc (length accs)"
  by (auto simp add: train_batch_def Let_def split_beta)

lemma batch_loop_lengths:
  "batch_loop lib opt batches (losses, accs, m, g) = (l1, a1, m1, g1) \<Longrightarrow>
     length l1 = length losses + length batches \<and> length a1 = length accs + length batches"
proof (induction batches arbitrary: losses accs m g)
  case Nil
  then show ?case by simp
next
  case (Cons samples rest)
  obtain l2 a2 m2 g2 where one: "train_batch lib opt samples (losses, accs, m, g) = (l2, a2, m2, g2)"
    by (metis prod_cases4)
  from Cons.prems one
  have "batch_loop lib opt rest (l2, a2, m2, g2) = (l1, a1, m1, g1)" by simp
  from Cons.IH [OF this] train_batch_lengths [OF one] show ?case by simp
qed

lemma iterate_dataloader_length:
  assumes "shuffles_permute lib"
  shows "length (fst (iterate_dataloader lib data bs g)) = (length data + bs - 1) div bs"
proof -
  from assms have "mset (fst (torch_randperm lib g (length data))) = mset [0..<length data]"
    by (simp add: shuffles_permute_def)
  then have "length (fst (torch_randperm lib g (length data))) = length [0..<length data]"
    by (rule mset_eq_length)
  then show ?thesis
    by (simp add: iterate_dataloader_def Let_def split_beta)
qed

lemma epoch_records_lengths:
  assumes "shuffles_permute lib"
  shows "length (fst (epoch_records lib opt data bs st)) = (length data + bs - 1) div bs"
    and "length (snd (epoch_records lib opt data bs st)) = (length data + bs - 1) div bs"
proof -
  obtain batches g1 where it: "iterate_dataloader lib data bs (rng st) = (batches, g1)"
    by force
  obtain losses accs m g2
    where run: "batch_loop lib opt batches ([], [], model st, g1) = (losses, accs, m, g2)"
    by (metis prod_cases4)
  have rec: "epoch_records lib opt data bs st = (losses, accs)"
    by (simp add: epoch_records_def it run)
  from iterate_dataloader_length [OF assms, of data bs "rng st"] it
  have "length batches = (length data + bs - 1) div bs" by simp
  with batch_loop_lengths [OF run] rec
  show "length (fst (epoch_records lib opt data bs st)) = (length data + bs - 1) div bs"
    and "length (snd (epoch_records lib opt data bs st)) = (length data + bs - 1) div bs"
    by simp_all
qed

lemma train_epoch_report:
  assumes "shuffles_permute lib" and "0 < (length data + bs - 1) div bs"
  shows "\<exists>st1. train_epoch lib opt data bs n e st = Inr st1
           \<and> stdout st1 = stdout st @
               [EpochHeader (e + 1) n,
                AverageLoss (sum_list (fst (epoch_records lib opt data bs st))
                               / real ((length data + bs - 1) div bs)),
                AverageAccuracy (sum_list (snd (epoch_records lib opt data bs st))
                               / real ((length data + bs - 1) div bs))]"
proof -
  obtain batches g1 where it: "iterate_dataloader lib data bs (rng st) = (batches, g1)"
    by force
  obtain losses accs m g2
    where run: "batch_loop lib opt batches ([], [], model st, g1) = (losses, accs, m, g2)"
    by (metis prod_cases4)
  have rec: "epoch_records lib opt data bs st = (losses, accs)"
    by (simp add: epoch_records_def it run)
  from epoch_records_lengths [OF assms(1), of opt data bs st] rec
  have len: "length losses = (length data + bs - 1) div bs"
    "length accs = (length data + bs - 1) div bs"
    by simp_all
  with assms(2) have "losses \<noteq> []" "accs \<noteq> []" by auto
  then show ?thesis
    using len [symmetric] by (simp add: train_epoch_def it run rec Let_def)
qed

lemma training_loop_snoc:
  "training_loop lib opt data bs n (es @ [e]) st =
     (case training_loop lib opt data bs n es st of
        Inl x \<Rightarrow> Inl x
      | Inr s \<Rightarrow> train_epoch lib opt data bs n e s)"
  by (induction es arbitrary: st) (simp_all split: sum.splits)

lemma training_loop_total:
  assumes "shuffles_permute lib" and "0 < (length data + bs - 1) div bs"
  shows "\<exists>s. training_loop lib opt data bs n [0..<j] st = Inr s"
proof (induction j)
  case 0
  show ?case by simp
next
  case (Suc j)
  then obtain s where s: "training_loop lib opt data bs n [0..<j] st = Inr s" by blast
  from train_epoch_report [OF assms, of opt n j s]
  obtain s1 where "train_epoch lib opt data bs n j s = Inr s1" by blast
  with s show ?case by (simp add: training_loop_snoc)
qed

lemma script_start_stdout: "length (stdout (start (script_setup lib env))) = 4"
  by (simp add: script_setup_def Let_def split_beta)

text \<open>
  Claim C9. When the library's shuffles are permutations, the training loop of the
  script runs through all 100 epochs and returns: there are states \<open>S 0, \<dots>, S 100\<close>,
  \<open>S 0\<close> the prepared one, such that epoch \<open>e\<close> leads from \<open>S e\<close> to \<open>S (e + 1)\<close> without
  failure, records the loss and the accuracy of 8 minibatches, and prints exactly the
  epoch header, the average of these losses and the average of these accuracies. The
  loop ends in \<open>S 100\<close>; no epoch is skipped and none is added, so the output holds
  the four shapes printed before and three entries for each of the 100 epochs.
\<close>

theorem training_loop_runs_100_epochs:
  assumes "shuffles_permute lib"
  shows "let p = script_setup lib env in
         \<exists>S. S 0 = start p
          \<and> (\<forall>e<100.
                train_epoch lib (optim p) (dataset p) batch_size num_epochs e (S e) = Inr (S (Suc e))
              \<and> length (fst (epoch_records lib (optim p) (dataset p) batch_size (S e))) = 8
              \<and> length (snd (epoch_records lib (optim p) (dataset p) batch_size (S e))) = 8
              \<and> stdout (S (Suc e)) = stdout (S e) @
                  [EpochHeader (e + 1) 100,
                   AverageLoss
                     (sum_list (fst (epoch_records lib (optim p) (dataset p) batch_size (S e))) / 8),
                   AverageAccuracy
                     (sum_list (snd (epoch_records lib (optim p) (dataset p) batch_size (S e))) / 8)])
          \<and> training_loop lib (optim p) (dataset p) batch_size num_epochs [0..<num_epochs] (S 0)
              = Inr (S 100)
          \<and> script_train lib env = Inr \<lparr>prep = p, state = S 100\<rparr>
          \<and> length (stdout (S 100)) = 4 + 3 * 100"
proof -
  define p where "p = script_setup lib env"
  define opt where "opt = optim p"
  define data where "data = dataset p"
  have batches: "(length data + batch_size - 1) div batch_size = 8"
    using script_dataset_length [OF assms, of env]
    by (simp add: data_def p_def batch_size_def)
  then have some: "0 < (length data + batch_size - 1) div batch_size" by simp
  define S where "S j = (case training_loop lib opt data batch_size num_epochs [0..<j] (start p) of
                            Inr s \<Rightarrow> s | Inl x \<Rightarrow> start p)" for j
  have run: "training_loop lib opt data batch_size num_epochs [0..<j] (start p) = Inr (S j)" for j
    using training_loop_total [OF assms some, of opt num_epochs j "start p"]
    by (auto simp add: S_def)
  have S0: "S 0 = start p" by (simp add: S_def)
  have step: "train_epoch lib opt data batch_size num_epochs e (S e) = Inr (S (Suc e))" for e
    using run [of "Suc e"] run [of e] by (simp add: training_loop_snoc)
  have out: "stdout (S (Suc e)) = stdout (S e) @
                  [EpochHeader (e + 1) 100,
                   AverageLoss (sum_list (fst (epoch_records lib opt data batch_size (S e))) / 8),
                   AverageAccuracy (sum_list (snd (epoch_records lib opt data batch_size (S e))) / 8)]"
    for e
    using train_epoch_report [OF assms some, of opt num_epochs e "S e", unfolded batches]
      step [of e]
    by (simp add: num_epochs_def)
  have recs: "length (fst (epoch_records lib opt data batch_size (S e))) = 8"
    "length (snd (epoch_records lib opt data batch_size (S e))) = 8" for e
    using epoch_records_lengths [OF assms, of opt data batch_size "S e"] batches by simp_all
  have len: "length (stdout (S j)) = 4 + 3 * j" for j
  proof (induction j)
    case 0
    show ?case by (simp add: S0 p_def script_start_stdout)
  next
    case (Suc j)
    then show ?case by (simp add: out)
  qed
  have all: "training_loop lib opt data batch_size num_epochs [0..<num_epochs] (S 0) = Inr (S 100)"
    using run [of 100] by (simp add: S0 num_epochs_def)
  then have script: "script_train lib env = Inr \<lparr>prep = p, state = S 100\<rparr>"
    by (simp add: script_train_def p_def [symmetric] opt_def data_def S0 Let_def)
  have "S 0 = start p
          \<and> (\<forall>e<100.
                train_epoch lib opt data batch_size num_epochs e (S e) = Inr (S (Suc e))
              \<and> length (fst (epoch_records lib opt data batch_size (S e))) = 8
              \<and> length (snd (epoch_records lib opt data batch_size (S e))) = 8
              \<and> stdout (S (Suc e)) = stdout (S e) @
                  [EpochHeader (e + 1) 100,
                   AverageLoss (sum_list (fst (epoch_records lib opt data batch_size (S e))) / 8),
                   AverageAccuracy (sum_list (snd (epoch_records lib opt data batch_size (S e))) / 8)])
          \<and> training_loop lib opt data batch_size num_epochs [0..<num_epochs] (S 0) = Inr (S 100)
          \<and> script_train lib env = Inr \<lparr>prep = p, state = S 100\<rparr>
          \<and> length (stdout (S 100)) = 4 + 3 * 100"
    using S0 step out recs all script len [of 100] by simp
  then show ?thesis
    unfolding Let_def p_def [symmetric] opt_def [symmetric] data_def [symmetric] by blast
qed

theorem training_loop_runs_100_epochs_witness:
  "shuffles_permute still_library
   \<and> (\<exists>tr. script_train still_library \<lparr>np_rng = (), torch_rng = ()\<rparr> = Inr tr
          \<and> length (stdout (state tr)) = 304)"
proof -
  have ok: "shuffles_permute still_library"
    by (simp add: shuffles_permute_def still_library_def)
  from training_loop_runs_100_epochs [OF ok, of "\<lparr>np_rng = (), torch_rng = ()\<rparr>"]
  obtain S :: "nat \<Rightarrow> (unit, unit) train_state"
    where "script_train still_library \<lparr>np_rng = (), torch_rng = ()\<rparr>
        = Inr \<lparr>prep = script_setup still_library \<lparr>np_rng = (), torch_rng = ()\<rparr>, state = S 100\<rparr>"
    and "length (stdout (S 100)) = 4 + 3 * 100"
    unfolding Let_def by blast
  then have "\<exists>tr. script_train still_library \<lparr>np_rng = (), torch_rng = ()\<rparr> = Inr tr
          \<and> length (stdout (state tr)) = 304"
    by simp
  with ok show ?thesis by blast
qed

lemma script_train_total:
  assumes "shuffles_permute lib"
  shows "\<exists>tr. script_train lib env = Inr tr"
proof -
  let ?p = "script_setup lib env"
  have "(length (dataset ?p) + batch_size - 1) div batch_size = 8"
    using script_dataset_length [OF assms, of env] by (simp add: batch_size_def)
  then have "0 < (length (dataset ?p) + batch_size - 1) div batch_size" by simp
  from training_loop_total [OF assms this, of "optim ?p" num_epochs num_epochs "start ?p"]
  show ?thesis by (auto simp add: script_train_def Let_def)
qed

lemma still_library_permutes: "shuffles_permute still_library"
  by (simp add: shuffles_permute_def still_library_def)

lemma trained_from_one_step:
  "trained_from lib opt m0 (fst (snd (snd (train_batch lib opt samples (losses, accs, m0, g)))))"
proof -
  have "train_batch lib opt samples (losses, accs, m0, g)
      = (fst (train_batch lib opt samples (losses, accs, m0, g)),
         fst (snd (train_batch lib opt samples (losses, accs, m0, g))),
         fst (snd (snd (train_batch lib opt samples (losses, accs, m0, g)))),
         snd (snd (snd (train_batch lib opt samples (losses, accs, m0, g)))))"
    by simp
  with trained_from.start show ?thesis by (rule trained_from.step)
qed

lemma script_start_record:
  "start (script_setup lib env) =
     \<lparr>model = freeze_input_layer (fst (DeepResnet_init lib 2 6 128 0.01 1 (torch_seed lib 0))),
      rng = rng (start (script_setup lib env)),
      stdout = stdout (start (script_setup lib env))\<rparr>"
  by (simp add: script_setup_def Let_def split_beta)

lemma script_train_loop:
  assumes "script_train lib env = Inr tr"
  shows "training_loop lib (optim (script_setup lib env)) (dataset (script_setup lib env))
           batch_size num_epochs [0..<num_epochs] (start (script_setup lib env)) = Inr (state tr)"
  using assms by (auto simp add: script_train_def Let_def split: sum.splits)

text \<open>
  Claim C1. Training starts from a constructed model whose input layer has been
  frozen. Every model an optimizer step leaves behind, after any number of steps on
  any minibatches, has the weight and the bias of the input layer it was constructed
  with; every state in which the training loop returns, for any list of epochs, holds
  such a model; and so does the state in which the script's 100 epochs end.
\<close>

theorem input_layer_unchanged_by_training:
  "(trained_from lib opt (freeze_input_layer (fst (DeepResnet_init lib nf nl nh r no g0))) m \<longrightarrow>
       pdata (weight (input_layer m))
         = pdata (weight (input_layer (fst (DeepResnet_init lib nf nl nh r no g0))))
     \<and> pdata (bias (input_layer m))
         = pdata (bias (input_layer (fst (DeepResnet_init lib nf nl nh r no g0)))))
   \<and> (training_loop lib opt data bs n epochs
         \<lparr>model = freeze_input_layer (fst (DeepResnet_init lib nf nl nh r no g0)),
          rng = g, stdout = out\<rparr> = Inr st \<longrightarrow>
       trained_from lib opt (freeze_input_layer (fst (DeepResnet_init lib nf nl nh r no g0)))
         (model st))
   \<and> (script_train lib env = Inr tr \<longrightarrow>
       pdata (weight (input_layer (model (state tr))))
         = pdata (weight (input_layer (initial_model (prep tr))))
     \<and> pdata (bias (input_layer (model (state tr))))
         = pdata (bias (input_layer (initial_model (prep tr)))))"
proof -
  let ?m0 = "fst (DeepResnet_init lib nf nl nh r no g0)"
  have first: "pdata (weight (input_layer m)) = pdata (weight (input_layer ?m0))
             \<and> pdata (bias (input_layer m)) = pdata (bias (input_layer ?m0))"
    if "trained_from lib opt (freeze_input_layer ?m0) m"
    using trained_from_frozen [OF that freeze_input_layer_frozen]
    by (simp add: freeze_input_layer_pdata)
  have second: "trained_from lib opt (freeze_input_layer ?m0) (model st)"
    if "training_loop lib opt data bs n epochs
         \<lparr>model = freeze_input_layer ?m0, rng = g, stdout = out\<rparr> = Inr st"
  proof -
    have "trained_from lib opt (freeze_input_layer ?m0)
            (model \<lparr>model = freeze_input_layer ?m0, rng = g, stdout = out\<rparr>)"
      by (simp add: trained_from.start)
    from training_loop_trained_from [OF this that] show ?thesis .
  qed
  have third: "pdata (weight (input_layer (model (state tr))))
         = pdata (weight (input_layer (initial_model (prep tr))))
     \<and> pdata (bias (input_layer (model (state tr))))
         = pdata (bias (input_layer (initial_model (prep tr))))"
    if "script_train lib env = Inr tr"
  proof -
    note reach = script_train_trained_from [OF that]
    have "frozen (input_layer (freeze_input_layer (initial_model (prep tr))))"
      unfolding reach(2) script_setup_fields(1) by (rule freeze_input_layer_frozen)
    from trained_from_frozen [OF reach(1) this] show ?thesis
      by (simp add: freeze_input_layer_pdata)
  qed
  from first second third show ?thesis by blast
qed

theorem input_layer_unchanged_by_training_witness:
  "(\<exists>tr. script_train still_library \<lparr>np_rng = (), torch_rng = ()\<rparr> = Inr tr
      \<and> pdata (weight (input_layer (model (state tr))))
          = pdata (weight (input_layer (initial_model (prep tr))))
      \<and> pdata (weight (input_layer (model (state tr)))) = replicate 128 [0, 0]
      \<and> trained_from still_library
           (optim (script_setup still_library \<lparr>np_rng = (), torch_rng = ()\<rparr>))
           (freeze_input_layer (fst (DeepResnet_init still_library 2 6 128 0.01 1 ())))
           (model (state tr)))
   \<and> trained_from still_library (optim_Adam [Weight InputLayer, Bias InputLayer] (1 / 10000))
        (freeze_input_layer (fst (DeepResnet_init still_library 2 1 1 0.01 1 ())))
        (fst (snd (snd (train_batch still_library
           (optim_Adam [Weight InputLayer, Bias InputLayer] (1 / 10000)) ([[1, 2], [3, 4]], [1, 0])
           ([], [], freeze_input_layer (fst (DeepResnet_init still_library 2 1 1 0.01 1 ())), ())))))
   \<and> pdata (weight (input_layer (fst (snd (snd (train_batch still_library
           (optim_Adam [Weight InputLayer, Bias InputLayer] (1 / 10000)) ([[1, 2], [3, 4]], [1, 0])
           ([], [], freeze_input_layer (fst (DeepResnet_init still_library 2 1 1 0.01 1 ())), ())))))))
       = pdata (weight (input_layer (fst (DeepResnet_init still_library 2 1 1 0.01 1 ()))))"
proof -
  let ?env = "\<lparr>np_rng = (), torch_rng = ()\<rparr> :: (unit, unit) generators"
  from script_train_total [OF still_library_permutes]
  obtain tr :: "(unit, unit, unit) trained"
    where tr: "script_train still_library ?env = Inr tr"
    by blast
  from input_layer_unchanged_by_training [where lib = still_library and env = ?env and tr = tr] tr
  have same: "pdata (weight (input_layer (model (state tr))))
          = pdata (weight (input_layer (initial_model (prep tr))))"
    by blast
  have "prep tr = script_setup still_library ?env"
    using script_train_trained_from(2) [OF tr] .
  then have "pdata (weight (input_layer (initial_model (prep tr))))
      = map (\<lambda>i. map (\<lambda>j. 0) [0..<2]) [0..<128]"
    by (simp add: script_setup_fields(1) DeepResnet_init_def nn_Linear_def new_param_def
        still_library_def split_beta Let_def)
  also have "\<dots> = map (\<lambda>i. [0, 0]) [0..<128]"
  proof -
    have "[0..<2] = [0, 1]" by (simp add: upt_conv_Cons)
    then have "map (\<lambda>j. 0::real) [0..<2] = [0, 0]" by simp
    then show ?thesis by simp
  qed
  also have "\<dots> = replicate 128 [0, 0]"
    by (simp only: map_replicate_const length_upt diff_zero)
  finally have zeros: "pdata (weight (input_layer (initial_model (prep tr)))) = replicate 128 [0, 0]" .
  have loop: "training_loop still_library (optim (script_setup still_library ?env))
      (dataset (script_setup still_library ?env)) batch_size num_epochs [0..<num_epochs]
      \<lparr>model = freeze_input_layer (fst (DeepResnet_init still_library 2 6 128 0.01 1
                  (torch_seed still_library 0))),
       rng = rng (start (script_setup still_library ?env)),
       stdout = stdout (start (script_setup still_library ?env))\<rparr> = Inr (state tr)"
    using script_train_loop [OF tr] script_start_record [of still_library ?env] by simp
  from input_layer_unchanged_by_training [where lib = still_library
      and opt = "optim (script_setup still_library ?env)"
      and data = "dataset (script_setup still_library ?env)" and bs = batch_size
      and n = num_epochs and epochs = "[0..<num_epochs]"
      and nf = 2 and nl = 6 and nh = 128 and r = "0.01" and no = 1
      and ?g0.0 = "torch_seed still_library 0"
      and g = "rng (start (script_setup still_library ?env))"
      and out = "stdout (start (script_setup still_library ?env))" and st = "state tr"] loop
  have reach: "trained_from still_library (optim (script_setup still_library ?env))
           (freeze_input_layer (fst (DeepResnet_init still_library 2 6 128 0.01 1 ())))
           (model (state tr))"
    by simp
  let ?opt = "optim_Adam [Weight InputLayer, Bias InputLayer] (1 / 10000)"
  let ?m0 = "fst (DeepResnet_init still_library 2 1 1 0.01 1 ())"
  let ?m2 = "fst (snd (snd (train_batch still_library ?opt ([[1, 2], [3, 4]], [1, 0])
           ([], [], freeze_input_layer ?m0, ()))))"
  have one: "trained_from still_library ?opt (freeze_input_layer ?m0) ?m2"
    by (rule trained_from_one_step)
  from input_layer_unchanged_by_training [where lib = still_library and opt = ?opt
      and nf = 2 and nl = 1 and nh = 1 and r = "0.01" and no = 1 and ?g0.0 = "()" and m = ?m2] one
  have kept: "pdata (weight (input_layer ?m2)) = pdata (weight (input_layer ?m0))"
    by blast
  from tr same zeros reach one kept show ?thesis by auto
qed

section \<open>The mode of the module\<close>

lemma update_layer_mode:
  "training (update_layer l f m) = training m"
  "dropout (update_layer l f m) = dropout m"
  by (cases l; simp)+

lemma zero_grad_mode:
  "training (zero_grad opt m) = training m"
  "dropout (zero_grad opt m) = dropout m"
proof -
  have "training (fold zero_grad_param rs m) = training m
      \<and> dropout (fold zero_grad_param rs m) = dropout m" for rs
  proof (induction rs arbitrary: m)
    case Nil
    show ?case by simp
  next
    case (Cons r rs)
    have "training (zero_grad_param r m) = training m \<and> dropout (zero_grad_param r m) = dropout m"
      by (cases r) (simp_all add: update_layer_mode)
    with Cons [of "zero_grad_param r m"] show ?case by simp
  qed
  then show "training (zero_grad opt m) = training m" "dropout (zero_grad opt m) = dropout m"
    by (simp_all add: zero_grad_def)
qed

lemma loss_backward_mode:
  "training (loss_backward lib fm fg x y m) = training m"
  "dropout (loss_backward lib fm fg x y m) = dropout m"
  by (simp_all add: loss_backward_def)

lemma optimizer_step_mode:
  "training (optimizer_step lib opt m) = training m"
  "dropout (optimizer_step lib opt m) = dropout m"
proof -
  have "training (fold (step_param lib rate) rs m) = training m
      \<and> dropout (fold (step_param lib rate) rs m) = dropout m" for rs rate
  proof (induction rs arbitrary: m)
    case Nil
    show ?case by simp
  next
    case (Cons r rs)
    have "training (step_param lib rate r m) = training m
        \<and> dropout (step_param lib rate r m) = dropout m"
      by (cases r) (simp_all add: update_layer_mode)
    with Cons [of "step_param lib rate r m"] show ?case by simp
  qed
  then show "training (optimizer_step lib opt m) = training m"
    "dropout (optimizer_step lib opt m) = dropout m"
    by (simp_all add: optimizer_step_def)
qed

lemma trained_from_mode:
  assumes "trained_from lib opt m0 m"
  shows "training m = training m0 \<and> dropout m = dropout m0"
  using assms
proof (induction rule: trained_from.induct)
  case start
  show ?case by simp
next
  case (step m samples losses accs g losses1 accs1 m1 g1)
  from train_batch_model [OF step.hyps(2)] step.IH show ?case
    by (simp add: optimizer_step_mode loss_backward_mode zero_grad_mode)
qed

lemma freeze_input_layer_mode:
  "training (freeze_input_layer m) = training m"
  "dropout (freeze_input_layer m) = dropout m"
  by (simp_all add: freeze_input_layer_def)

lemma nn_dropout_training:
  "nn_dropout lib p True input g =
     (drop_entries p (fst (torch_bernoulli lib g (1 - p))) input, snd (torch_bernoulli lib g (1 - p)))"
  by (simp add: nn_dropout_def split_beta)


lemma dropout_enabled_in_training_loop:
  "trained_from lib opt (freeze_input_layer (fst (DeepResnet_init lib nf nl nh r no g0))) m \<Longrightarrow>
     training m \<and> dropout m = r"
  using trained_from_mode [of lib opt _ m]
  by (simp add: freeze_input_layer_mode DeepResnet_init_fields)



section \<open>Determinism\<close>

lemma script_setup_env: "script_setup lib env = script_setup lib env'"
  by (simp add: script_setup_def)

text \<open>
  Claim C8. The script installs the generator states of seed \<open>0\<close> for NumPy and for
  torch before anything is drawn, and draws from these two generators only. Two runs
  that start with different generator states therefore prepare the same training data,
  grid, out-of-domain points and initial model, go through the same training, and end
  with the same model, output and surfaces.
\<close>

theorem script_deterministic:
  "script_setup lib env = script_setup lib env'
   \<and> script_train lib env = script_train lib env'
   \<and> script lib env = script lib env'
   \<and> rng (start (script_setup lib env))
       = snd (DeepResnet_init lib 2 6 128 0.01 1 (torch_seed lib 0))
   \<and> (train_examples (script_setup lib env), train_labels (script_setup lib env))
       = fst (make_training_data lib 500 (np_seed lib 0))"
proof -
  have "script_train lib env = script_train lib env'"
    unfolding script_train_def script_setup_env [of lib env env'] ..
  then have "script lib env = script lib env'"
    by (simp add: script_def)
  moreover have "rng (start (script_setup lib env))
       = snd (DeepResnet_init lib 2 6 128 0.01 1 (torch_seed lib 0))"
    by (simp add: script_setup_def Let_def split_beta)
  ultimately show ?thesis
    using script_setup_env [of lib env env'] \<open>script_train lib env = script_train lib env'\<close>
    by (simp add: script_setup_fields(4))
qed

end
